theory Spec2Isabelle
  imports Main "HOL-Library.Sublist"
begin

section \<open>Strings\<close>

text \<open>
  JavaScript strings are modelled as \<open>string\<close> (lists of 8-bit characters), so the
  model covers ASCII input; \<open>toLowerCase\<close> and \<open>trim\<close> are the ASCII parts of the
  JavaScript operations.  A value that may be \<open>undefined\<close> is an \<open>option\<close>.
\<close>

definition truthy :: "string option \<Rightarrow> bool" where
  "truthy v = (case v of None \<Rightarrow> False | Some s \<Rightarrow> s \<noteq> [])"

definition truthyNum :: "int option \<Rightarrow> bool" where
  "truthyNum v = (case v of None \<Rightarrow> False | Some n \<Rightarrow> n \<noteq> 0)"

definition toLowerChar :: "char \<Rightarrow> char" where
  "toLowerChar c =
     (case map_of (zip ''ABCDEFGHIJKLMNOPQRSTUVWXYZ'' ''abcdefghijklmnopqrstuvwxyz'') c of
        None \<Rightarrow> c | Some l \<Rightarrow> l)"

definition toLowerCase :: "string \<Rightarrow> string" where
  "toLowerCase s = map toLowerChar s"

definition isWhiteSpace :: "char \<Rightarrow> bool" where
  "isWhiteSpace c = (c \<in> set [CHR 0x20, CHR 0x09, CHR 0x0A, CHR 0x0B, CHR 0x0C, CHR 0x0D])"

definition trim :: "string \<Rightarrow> string" where
  "trim s = rev (dropWhile isWhiteSpace (rev (dropWhile isWhiteSpace s)))"

text \<open>\<open>s.includes(pat)\<close>\<close>

fun includesStr :: "string \<Rightarrow> string \<Rightarrow> bool" where
  "includesStr [] pat = (pat = [])"
| "includesStr (c # cs) pat = (prefix pat (c # cs) \<or> includesStr cs pat)"

text \<open>\<open>s.endsWith(suf)\<close>\<close>

definition endsWith :: "string \<Rightarrow> string \<Rightarrow> bool" where
  "endsWith s suf = suffix suf s"

text \<open>\<open>s.replace(pat, '')\<close> with a string pattern: only the first occurrence goes.\<close>

fun removeFirst :: "string \<Rightarrow> string \<Rightarrow> string" where
  "removeFirst pat [] = []"
| "removeFirst pat (c # cs) =
     (if prefix pat (c # cs) then drop (length pat) (c # cs) else c # removeFirst pat cs)"

text \<open>\<open>s.split(sep)\<close> for a one-character separator; \<open>s.split('/')[0]\<close> is its head.\<close>

fun split :: "char \<Rightarrow> string \<Rightarrow> string list" where
  "split sep [] = [[]]"
| "split sep (c # cs) =
     (if c = sep then [] # split sep cs
      else (case split sep cs of [] \<Rightarrow> [[c]] | w # ws \<Rightarrow> (c # w) # ws))"

definition splitHead :: "char \<Rightarrow> string \<Rightarrow> string" where
  "splitHead sep s = (case split sep s of [] \<Rightarrow> [] | w # ws \<Rightarrow> w)"

section \<open>Errors\<close>

text \<open>
  One constructor per \<open>throw\<close> of the three classes; the message arguments are the
  values the source interpolates.  \<open>LibraryError\<close> is whatever a library call
  (\<open>jwtService.verify\<close>, \<open>jose\<close>, \<open>fetch\<close>, \<open>response.json\<close>) throws.
\<close>

datatype error =
    LibraryError string
  | MissingConfiguration string
  | InvalidJwtPayloadFormat
  | MissingRequiredFields
  | InvalidAudience string "string option"
  | SessionTokenExpired int
  | SessionTokenNotValidFor int
  | SessionTokenTooOld
  | InvalidShopDomainInToken string
  | InvalidIssuerFormat string
  | CannotExtractShop
  | ShopDomainRequired
  | InvalidShopDomainFormat string
  | InvalidShopNameFormat string
  | TokenExchangeHttpFailed nat string
  | PersistenceFailed
  | InvalidSessionToken error
  | TokenExchangeFailed error
  | FailedToInvalidate string
  | SecretNotConfigured
  | InvalidTokenFormat
  | GuardTokenExpired
  | GuardTokenNotYetValid
  | GuardInvalidAudience
  | DomainsDoNotMatch
  | GuardInvalidShopDomain
  | InvalidUrlFormat
  | JwtValidationFailed error
  | JwksFetchFailed nat
  | InvalidJwksFormat
  | KeysUndefined
  | MissingKid
  | NoMatchingKey string
  | MissingIssuer
  | JwtVerificationFailed error

section \<open>Shop domains (\<open>ShopifyAuthService\<close>)\<close>

definition isShopNameChar :: "char \<Rightarrow> bool" where
  "isShopNameChar c = (c \<in> set ''abcdefghijklmnopqrstuvwxyz0123456789-'')"

definition isAlnum :: "char \<Rightarrow> bool" where
  "isAlnum c =
     (c \<in> set ''abcdefghijklmnopqrstuvwxyzABCDEFGHIJKLMNOPQRSTUVWXYZ0123456789'')"

text \<open>\<open>cleanShop.replace(/^https?:\/\//, '')\<close>\<close>

definition removeProtocol :: "string \<Rightarrow> string" where
  "removeProtocol s =
     (if prefix ''https://'' s then drop 8 s
      else if prefix ''http://'' s then drop 7 s
      else s)"

text \<open>
  \<open>withoutProtocol.match(/^([a-z0-9-]+)(?:\.myshopify\.com|\.ngrok\.io|\.localhost|\.local)?/)\<close>:
  only group 1 is used.  The class is greedy and the suffix group is optional, so the
  match succeeds with the longest run of class characters at the start, and fails exactly
  when that run is empty.
\<close>

definition shopMatch :: "string \<Rightarrow> string option" where
  "shopMatch s =
     (let name = takeWhile isShopNameChar s in if name = [] then None else Some name)"

text \<open>\<open>/^[a-z0-9-]+$/.test(shopName)\<close>\<close>

definition shopNameTest :: "string \<Rightarrow> bool" where
  "shopNameTest n = (n \<noteq> [] \<and> list_all isShopNameChar n)"

text \<open>\<open>production\<close> is \<open>process.env.NODE_ENV === 'production'\<close>.\<close>

definition sanitizeShop :: "bool \<Rightarrow> string \<Rightarrow> error + string" where
  "sanitizeShop production shop =
     (if shop = [] then Inl ShopDomainRequired
      else
        let cleanShop = toLowerCase (trim shop);
            withoutProtocol = removeProtocol cleanShop
        in case shopMatch withoutProtocol of
             None \<Rightarrow> Inl (InvalidShopDomainFormat shop)
           | Some shopName \<Rightarrow>
               if \<not> shopNameTest shopName then Inl (InvalidShopNameFormat shopName)
               else if production then Inr (shopName @ ''.myshopify.com'')
               else if includesStr withoutProtocol ''.ngrok.io''
                       \<or> includesStr withoutProtocol ''.localhost''
                       \<or> includesStr withoutProtocol ''.local''
                    then Inr withoutProtocol
               else Inr (shopName @ ''.myshopify.com''))"

text \<open>
  \<open>/^[a-zA-Z0-9][a-zA-Z0-9-]*\.myshopify\.com$/\<close> and the development pattern
  \<open>/^[a-zA-Z0-9][a-zA-Z0-9-]*\.(ngrok\.io|localhost|local)$/\<close>: the dot is outside the
  class, so the label is the longest run of class characters and the rest must be one of
  the listed suffixes.
\<close>

definition domainLabelRest :: "string \<Rightarrow> (string \<times> string) option" where
  "domainLabelRest s =
     (let label = takeWhile (\<lambda>c. isAlnum c \<or> c = CHR ''-'') s;
          rest = dropWhile (\<lambda>c. isAlnum c \<or> c = CHR ''-'') s
      in case label of [] \<Rightarrow> None
         | c # cs \<Rightarrow> if isAlnum c then Some (label, rest) else None)"

definition shopRegexTest :: "string \<Rightarrow> bool" where
  "shopRegexTest s =
     (case domainLabelRest s of None \<Rightarrow> False | Some (l, rest) \<Rightarrow> rest = ''.myshopify.com'')"

definition devRegexTest :: "string \<Rightarrow> bool" where
  "devRegexTest s =
     (case domainLabelRest s of None \<Rightarrow> False
      | Some (l, rest) \<Rightarrow> rest \<in> set [''.ngrok.io'', ''.localhost'', ''.local''])"

definition isValidShopDomain :: "bool \<Rightarrow> string \<Rightarrow> bool" where
  "isValidShopDomain production shop =
     (if shop = [] then False
      else shopRegexTest shop \<or> (\<not> production \<and> devRegexTest shop))"

section \<open>Session-token claims and the environment\<close>

text \<open>
  \<open>SessionTokenPayload\<close>: a decoded token is JSON, so each claim may be absent
  (\<open>undefined\<close>).  Times are in seconds.
\<close>

record SessionTokenPayload =
  iss :: "string option"
  dest :: "string option"
  aud :: "string option"
  sub :: "string option"
  exp :: "int option"
  nbf :: "int option"
  iat :: "int option"
  jti :: "string option"
  sid :: "string option"

record ShopifyUser =
  user_id :: int
  first_name :: string
  last_name :: string
  email :: string
  email_verified :: bool
  account_owner :: bool
  user_locale :: string
  collaborator :: bool

record ShopifyTokenExchangeRequest =
  client_id :: string
  client_secret :: string
  grant_type :: string
  subject_token :: string
  subject_token_type :: string
  requested_token_type :: string

record ShopifyTokenExchangeResponse =
  access_token :: string
  scope :: string
  expires_in :: "int option"
  associated_user_scope :: "string option"
  associated_user :: "ShopifyUser option"

text \<open>
  What \<open>fetch\<close> gives for the token-exchange POST: a rejected promise, or a response with
  its status, its text and the result of \<open>response.json()\<close> (\<open>None\<close>: it throws).
\<close>

datatype http_result =
    NetworkFailure string
  | HttpResponse nat string "ShopifyTokenExchangeResponse option"

datatype tokenType = online | offline

text \<open>
  A row of \<open>shopify_sessions\<close> (entity \<open>ShopifySession\<close>; its columns \<open>id\<close> and \<open>scope\<close>
  are \<open>id_col\<close> and \<open>scopes\<close> here).  A column that no write has given a value is \<open>None\<close>.
  Dates are in milliseconds.
\<close>

record ShopifySession =
  id_col :: string
  shop :: string
  userId :: "string option"
  accessToken :: "string option"
  onlineAccessToken :: "string option"
  scopes :: "string list"
  expiresAt :: "int option"
  userInfo :: "ShopifyUser option"
  createdAt :: int
  updatedAt :: int
  isActive :: bool

record JWKSKey =
  kty :: string
  kid :: string
  jwk_use :: string
  jwk_n :: string
  jwk_e :: string
  alg :: string

text \<open>
  What \<open>fetch\<close> gives for the key-set GET: a rejected promise (network error, or the abort
  after 5 seconds), or a response with its status and body.
\<close>

datatype jwks_body = JsonThrows | NoKeysArray | Keys "JWKSKey list"

datatype jwks_result =
    JwksNetworkFailure string
  | JwksResponse nat jwks_body

text \<open>
  What decoding the payload part of a compact token gives: nothing when the string is
  not a well-formed JWT, a value that is not a JSON object, or the claims.
\<close>

datatype decoded = Malformed | NotAnObject | Claims SessionTokenPayload

text \<open>
  The collaborators of the code: configuration, clock, the tokens and their signatures,
  the network, the URL parser and the datastore.
  \<^item> \<open>production\<close> is \<open>process.env.NODE_ENV === 'production'\<close>, \<open>nowMs\<close> is \<open>Date.now()\<close>,
    \<open>apiKey\<close> and \<open>apiSecret\<close> are the settings \<open>SHOPIFY_API_KEY\<close> and \<open>SHOPIFY_API_SECRET\<close>;
  \<^item> \<open>decodeToken token\<close> is the decoded payload of the token, the same for every library,
    and \<open>headerAlg token\<close> the \<open>alg\<close> of its protected header;
  \<^item> \<open>hmacValid token secret\<close>: the HMAC signature of the token verifies under the secret;
    \<open>keyValid token key\<close>: the header's algorithm fits the imported public key and the
    signature verifies under it;
  \<^item> \<open>joseDecodeProtectedHeader\<close> (the header's \<open>kid\<close>) and \<open>joseImportJWK\<close> are the
    \<open>jose\<close> calls of these names, \<open>Inl\<close> the message they throw;
  \<^item> \<open>fetchToken url body\<close> and \<open>fetchJwks url\<close> are the two uses of \<open>fetch\<close>;
  \<^item> \<open>urlHostname u\<close> is \<open>new URL(u).hostname\<close>, \<open>None\<close> when the constructor throws;
  \<^item> \<open>dbAccepts t\<close>: the datastore carries out a write that leads to table \<open>t\<close>
    (otherwise the driver throws and a transaction is rolled back).
\<close>

record env =
  production :: bool
  nowMs :: int
  apiKey :: "string option"
  apiSecret :: "string option"
  decodeToken :: "string \<Rightarrow> decoded"
  headerAlg :: "string \<Rightarrow> string"
  hmacValid :: "string \<Rightarrow> string \<Rightarrow> bool"
  keyValid :: "string \<Rightarrow> JWKSKey \<Rightarrow> bool"
  fetchToken :: "string \<Rightarrow> ShopifyTokenExchangeRequest \<Rightarrow> http_result"
  dbAccepts :: "ShopifySession list \<Rightarrow> bool"
  urlHostname :: "string \<Rightarrow> string option"
  fetchJwks :: "string \<Rightarrow> jwks_result"
  joseDecodeProtectedHeader :: "string \<Rightarrow> string + string option"
  joseImportJWK :: "JWKSKey \<Rightarrow> string + JWKSKey"

definition bindE :: "'e + 'a \<Rightarrow> ('a \<Rightarrow> 'e + 'b) \<Rightarrow> 'e + 'b" where
  "bindE m f = (case m of Inl err \<Rightarrow> Inl err | Inr x \<Rightarrow> f x)"

text \<open>A library call that throws raises \<open>LibraryError\<close> with its message.\<close>

definition lib :: "string + 'a \<Rightarrow> error + 'a" where
  "lib r = (case r of Inl msg \<Rightarrow> Inl (LibraryError msg) | Inr x \<Rightarrow> Inr x)"

text \<open>\<open>Math.floor(Date.now() / 1000)\<close>\<close>

definition nowSec :: "env \<Rightarrow> int" where
  "nowSec E = nowMs E div 1000"

section \<open>The JWT libraries\<close>

text \<open>
  \<open>jwtService.verify(token, {secret, algorithms: ['HS256']})\<close> of \<open>@nestjs/jwt\<close>, which is
  \<open>verify\<close> of \<open>jsonwebtoken\<close>.  Neither call site passes \<open>ignoreExpiration\<close> or
  \<open>ignoreNotBefore\<close> and the module registers no verify options, so the library decodes
  the token, refuses a header algorithm other than \<open>HS256\<close>, checks the signature, then a
  present \<open>nbf\<close> claim (\<open>nbf > now\<close> throws) and then a present \<open>exp\<close> claim
  (\<open>now >= exp\<close> throws) against the clock in seconds, and returns the payload.  \<open>Inl\<close> is
  the message it throws, \<open>Inr None\<close> a payload that is not an object.
\<close>

definition jwtVerify :: "env \<Rightarrow> string \<Rightarrow> string \<Rightarrow> string + SessionTokenPayload option" where
  "jwtVerify E token secret =
     (case decodeToken E token of
        Malformed \<Rightarrow> Inl ''jwt malformed''
      | NotAnObject \<Rightarrow>
          if headerAlg E token \<noteq> ''HS256'' then Inl ''invalid algorithm''
          else if \<not> hmacValid E token secret then Inl ''invalid signature''
          else Inr None
      | Claims p \<Rightarrow>
          if headerAlg E token \<noteq> ''HS256'' then Inl ''invalid algorithm''
          else if \<not> hmacValid E token secret then Inl ''invalid signature''
          else if (case nbf p of None \<Rightarrow> False | Some x \<Rightarrow> x > nowSec E) then Inl ''jwt not active''
          else if (case exp p of None \<Rightarrow> False | Some x \<Rightarrow> nowSec E \<ge> x) then Inl ''jwt expired''
          else Inr (Some p))"

text \<open>\<open>jose.decodeJwt(token)\<close>: the claims without any verification.\<close>

definition joseDecodeJwt :: "env \<Rightarrow> string \<Rightarrow> string + SessionTokenPayload" where
  "joseDecodeJwt E token =
     (case decodeToken E token of
        Malformed \<Rightarrow> Inl ''Invalid JWT''
      | NotAnObject \<Rightarrow> Inl ''Invalid JWT Claims Set''
      | Claims p \<Rightarrow> Inr p)"

text \<open>
  \<open>jose.jwtVerify(token, publicKey, {issuer, audience})\<close>: it checks the signature, then
  the claims: \<open>iss\<close> must be the issuer; \<open>aud\<close> must be present when the \<open>audience\<close>
  option is not \<open>undefined\<close> and must be the audience when that is a non-empty string; a
  present \<open>nbf\<close> must not be after now and a present \<open>exp\<close> must be after now.  (Its
  messages, written here without their inner quotes, never leave the guard, which
  catches them.)
\<close>

definition joseJwtVerify ::
  "env \<Rightarrow> string \<Rightarrow> JWKSKey \<Rightarrow> string \<Rightarrow> string option \<Rightarrow> string + SessionTokenPayload" where
  "joseJwtVerify E token publicKey issuer audience =
     (if \<not> keyValid E token publicKey then Inl ''signature verification failed''
      else (case decodeToken E token of
              Malformed \<Rightarrow> Inl ''Invalid JWT''
            | NotAnObject \<Rightarrow> Inl ''Invalid JWT Claims Set''
            | Claims p \<Rightarrow>
                if iss p \<noteq> Some issuer then Inl ''unexpected iss claim value''
                else if audience \<noteq> None \<and> aud p = None then Inl ''missing required aud claim''
                else if truthy audience \<and> aud p \<noteq> audience then Inl ''unexpected aud claim value''
                else if (case nbf p of None \<Rightarrow> False | Some x \<Rightarrow> x > nowSec E)
                  then Inl ''nbf claim timestamp check failed''
                else if (case exp p of None \<Rightarrow> False | Some x \<Rightarrow> x \<le> nowSec E)
                  then Inl ''exp claim timestamp check failed''
                else Inr p))"

section \<open>\<open>ShopifyAuthService\<close>: validation\<close>

definition getRequiredConfig :: "string \<Rightarrow> string option \<Rightarrow> error + string" where
  "getRequiredConfig key v =
     (case v of None \<Rightarrow> Inl (MissingConfiguration key)
      | Some s \<Rightarrow> if s = [] then Inl (MissingConfiguration key) else Inr s)"

definition SESSION_TOKEN_LIFETIME :: int where
  "SESSION_TOKEN_LIFETIME = 60"

definition extractShopFromPayload :: "env \<Rightarrow> SessionTokenPayload \<Rightarrow> error + string" where
  "extractShopFromPayload E payload =
     (let shop0 =
        (case iss payload of
           Some i \<Rightarrow>
             if i \<noteq> [] then splitHead CHR ''/'' (removeFirst ''/admin'' (removeFirst ''https://'' i))
             else (case dest payload of
                     Some d \<Rightarrow> if d \<noteq> [] then splitHead CHR ''/'' (removeFirst ''https://'' d) else []
                   | None \<Rightarrow> [])
         | None \<Rightarrow>
             (case dest payload of
                Some d \<Rightarrow> if d \<noteq> [] then splitHead CHR ''/'' (removeFirst ''https://'' d) else []
              | None \<Rightarrow> []))
      in if shop0 = [] then Inl CannotExtractShop else sanitizeShop (production E) shop0)"

definition validateTokenPayload :: "env \<Rightarrow> SessionTokenPayload \<Rightarrow> string \<Rightarrow> error + unit" where
  "validateTokenPayload E payload expectedClientId =
     (let now = nowSec E in
      if \<not> truthy (iss payload) \<or> \<not> truthy (dest payload)
         \<or> \<not> truthy (aud payload) \<or> \<not> truthy (sub payload)
      then Inl MissingRequiredFields
      else if aud payload \<noteq> Some expectedClientId
      then Inl (InvalidAudience expectedClientId (aud payload))
      else if (case exp payload of None \<Rightarrow> False | Some x \<Rightarrow> x \<noteq> 0 \<and> x < now)
      then Inl (SessionTokenExpired (now - the (exp payload)))
      else if (case nbf payload of None \<Rightarrow> False | Some x \<Rightarrow> x \<noteq> 0 \<and> x > now)
      then Inl (SessionTokenNotValidFor (the (nbf payload) - now))
      else if (case iat payload of None \<Rightarrow> False
               | Some x \<Rightarrow> x \<noteq> 0 \<and> now - x > SESSION_TOKEN_LIFETIME + 30)
      then Inl SessionTokenTooOld
      else bindE (extractShopFromPayload E payload) (\<lambda>shop.
        if \<not> isValidShopDomain (production E) shop then Inl (InvalidShopDomainInToken shop)
        else if \<not> includesStr (the (iss payload)) ''.myshopify.com''
        then Inl (InvalidIssuerFormat (the (iss payload)))
        else Inr ()))"

text \<open>
  \<open>validateSessionToken\<close>: whatever is thrown inside the \<open>try\<close> is rethrown as
  \<open>UnauthorizedException('Invalid session token: ...')\<close>, here \<open>InvalidSessionToken\<close>.
\<close>

definition validateSessionToken :: "env \<Rightarrow> string \<Rightarrow> error + SessionTokenPayload" where
  "validateSessionToken E sessionToken =
     (case
        bindE (getRequiredConfig ''SHOPIFY_API_SECRET'' (apiSecret E)) (\<lambda>clientSecret.
        bindE (getRequiredConfig ''SHOPIFY_API_KEY'' (apiKey E)) (\<lambda>clientId.
        bindE (lib (jwtVerify E sessionToken clientSecret)) (\<lambda>rawPayload.
        bindE (case rawPayload of None \<Rightarrow> Inl InvalidJwtPayloadFormat | Some p \<Rightarrow> Inr p)
          (\<lambda>payload.
        bindE (validateTokenPayload E payload clientId) (\<lambda>_.
        bindE (extractShopFromPayload E payload) (\<lambda>shop.
        Inr payload))))))
      of Inl err \<Rightarrow> Inl (InvalidSessionToken err) | Inr payload \<Rightarrow> Inr payload)"

section \<open>\<open>ShopifyAuthService\<close>: token exchange and the session store\<close>

definition tokenExchangeUrl :: "string \<Rightarrow> string" where
  "tokenExchangeUrl shp = ''https://'' @ shp @ ''/admin/oauth/access_token''"

definition requestBody :: "string \<Rightarrow> string \<Rightarrow> string \<Rightarrow> tokenType \<Rightarrow> ShopifyTokenExchangeRequest" where
  "requestBody clientId clientSecret sessionToken tt =
     \<lparr> client_id = clientId,
       client_secret = clientSecret,
       grant_type = ''urn:ietf:params:oauth:grant-type:token-exchange'',
       subject_token = sessionToken,
       subject_token_type = ''urn:ietf:params:oauth:token-type:id_token'',
       requested_token_type =
         (if tt = online then ''urn:shopify:params:oauth:token-type:online-access-token''
          else ''urn:shopify:params:oauth:token-type:offline-access-token'') \<rparr>"

text \<open>\<open>response.ok\<close>\<close>

definition responseOk :: "nat \<Rightarrow> bool" where
  "responseOk status = (200 \<le> status \<and> status \<le> 299)"

definition performTokenExchange ::
  "env \<Rightarrow> string \<Rightarrow> string \<Rightarrow> tokenType \<Rightarrow> error + ShopifyTokenExchangeResponse" where
  "performTokenExchange E shp sessionToken tt =
     bindE (getRequiredConfig ''SHOPIFY_API_KEY'' (apiKey E)) (\<lambda>clientId.
     bindE (getRequiredConfig ''SHOPIFY_API_SECRET'' (apiSecret E)) (\<lambda>clientSecret.
       case fetchToken E (tokenExchangeUrl shp) (requestBody clientId clientSecret sessionToken tt) of
         NetworkFailure msg \<Rightarrow> Inl (LibraryError msg)
       | HttpResponse status errorText json \<Rightarrow>
           if \<not> responseOk status then Inl (TokenExchangeHttpFailed status errorText)
           else (case json of
                   None \<Rightarrow> Inl (LibraryError ''Unexpected token in JSON'')
                 | Some result \<Rightarrow> Inr result)))"

text \<open>
  \<open>manager.update(ShopifySession, {shop, isActive: true}, {isActive: false, updatedAt: new Date()})\<close>
  with the rows it selects and the number of rows it affects.
\<close>

definition deactivateRow :: "string \<Rightarrow> int \<Rightarrow> ShopifySession \<Rightarrow> ShopifySession" where
  "deactivateRow shp t r =
     (if shop r = shp \<and> isActive r then r\<lparr>isActive := False, updatedAt := t\<rparr> else r)"

definition deactivate :: "string \<Rightarrow> int \<Rightarrow> ShopifySession list \<Rightarrow> ShopifySession list" where
  "deactivate shp t rows = map (deactivateRow shp t) rows"

definition activeSessions :: "string \<Rightarrow> ShopifySession list \<Rightarrow> ShopifySession list" where
  "activeSessions shp rows = filter (\<lambda>r. shop r = shp \<and> isActive r) rows"

definition affected :: "string \<Rightarrow> ShopifySession list \<Rightarrow> nat" where
  "affected shp rows = length (activeSessions shp rows)"

text \<open>
  The object \<open>storeSession\<close> builds with \<open>manager.create\<close> and the assignments after it.
  A property that is \<open>undefined\<close> is \<open>None\<close>.  (\<open>create\<close> keeps only properties that are
  columns of the entity: \<open>sessionId\<close>, \<open>issuer\<close> and \<open>destination\<close> are dropped.)
\<close>

record SessionEntity =
  e_id :: "string option"
  e_shop :: string
  e_userId :: "string option"
  e_scope :: "string list"
  e_isActive :: bool
  e_createdAt :: int
  e_updatedAt :: int
  e_accessToken :: "string option"
  e_onlineAccessToken :: "string option"
  e_userInfo :: "ShopifyUser option"
  e_expiresAt :: "int option"

text \<open>\<open>payload.sid || payload.jti\<close>\<close>

definition sidOrJti :: "SessionTokenPayload \<Rightarrow> string option" where
  "sidOrJti payload = (if truthy (sid payload) then sid payload else jti payload)"

definition createSession ::
  "env \<Rightarrow> string \<Rightarrow> SessionTokenPayload \<Rightarrow> ShopifyTokenExchangeResponse \<Rightarrow> tokenType \<Rightarrow> SessionEntity" where
  "createSession E shp payload tokenResponse tt =
     (let session =
        \<lparr> e_id = sidOrJti payload,
          e_shop = shp,
          e_userId = sub payload,
          e_scope = (if scope tokenResponse \<noteq> [] then split CHR '','' (scope tokenResponse) else []),
          e_isActive = True,
          e_createdAt = nowMs E,
          e_updatedAt = nowMs E,
          e_accessToken = None,
          e_onlineAccessToken = None,
          e_userInfo = None,
          e_expiresAt = None \<rparr>
      in if tt = online
         then session\<lparr> e_onlineAccessToken := Some (access_token tokenResponse),
                       e_userInfo := associated_user tokenResponse,
                       e_expiresAt :=
                         (case expires_in tokenResponse of
                            None \<Rightarrow> None
                          | Some x \<Rightarrow> if x \<noteq> 0 then Some (nowMs E + x * 1000) else None) \<rparr>
         else session\<lparr> e_accessToken := Some (access_token tokenResponse),
                       e_expiresAt := None \<rparr>)"

text \<open>
  \<open>manager.save(session)\<close> writes by primary key: it inserts the row when the table has
  none with this \<open>id\<close>, and otherwise updates that row, skipping every property of the
  object that is \<open>undefined\<close> (the column keeps its value).  An inserted row has \<open>NULL\<close>
  (\<open>None\<close>) in the columns the object leaves \<open>undefined\<close>.
\<close>

definition orElse :: "'a option \<Rightarrow> 'a option \<Rightarrow> 'a option" where
  "orElse new old = (case new of None \<Rightarrow> old | Some v \<Rightarrow> Some v)"

definition insertedRow :: "string \<Rightarrow> SessionEntity \<Rightarrow> ShopifySession" where
  "insertedRow i s =
     \<lparr> id_col = i, shop = e_shop s, userId = e_userId s, accessToken = e_accessToken s,
       onlineAccessToken = e_onlineAccessToken s, scopes = e_scope s,
       expiresAt = e_expiresAt s, userInfo = e_userInfo s,
       createdAt = e_createdAt s, updatedAt = e_updatedAt s, isActive = e_isActive s \<rparr>"

definition updatedRow :: "ShopifySession \<Rightarrow> SessionEntity \<Rightarrow> ShopifySession" where
  "updatedRow r s =
     r\<lparr> shop := e_shop s,
        userId := orElse (e_userId s) (userId r),
        accessToken := orElse (e_accessToken s) (accessToken r),
        onlineAccessToken := orElse (e_onlineAccessToken s) (onlineAccessToken r),
        scopes := e_scope s,
        expiresAt := orElse (e_expiresAt s) (expiresAt r),
        userInfo := orElse (e_userInfo s) (userInfo r),
        createdAt := e_createdAt s,
        updatedAt := e_updatedAt s,
        isActive := e_isActive s \<rparr>"

definition save :: "string \<Rightarrow> SessionEntity \<Rightarrow> ShopifySession list \<Rightarrow> ShopifySession list" where
  "save i s rows =
     (if list_ex (\<lambda>r. id_col r = i) rows
      then map (\<lambda>r. if id_col r = i then updatedRow r s else r) rows
      else rows @ [insertedRow i s])"

definition findById :: "string \<Rightarrow> ShopifySession list \<Rightarrow> ShopifySession option" where
  "findById i rows = find (\<lambda>r. id_col r = i) rows"

text \<open>
  \<open>storeSession\<close>: both writes run in one \<open>manager.transaction\<close>, so the table either
  takes both or, when the datastore throws, stays as it was.  The result is the saved
  object and the new table.
\<close>

definition storeSession ::
  "env \<Rightarrow> string \<Rightarrow> SessionTokenPayload \<Rightarrow> ShopifyTokenExchangeResponse \<Rightarrow> tokenType
     \<Rightarrow> ShopifySession list \<Rightarrow> error + (SessionEntity \<times> ShopifySession list)" where
  "storeSession E shp payload tokenResponse tt rows =
     (let rows1 = deactivate shp (nowMs E) rows;
          session = createSession E shp payload tokenResponse tt
      in case e_id session of
           None \<Rightarrow> Inl PersistenceFailed
         | Some i \<Rightarrow>
             (let rows2 = save i session rows1
              in if \<not> dbAccepts E rows2 then Inl PersistenceFailed
                 else Inr (session, rows2)))"

text \<open>
  \<open>exchangeSessionToken\<close> returns its result and the table after the call; whatever is
  thrown is rethrown as \<open>UnauthorizedException('Token exchange failed: ...')\<close>.
\<close>

definition exchangeSessionToken ::
  "env \<Rightarrow> string \<Rightarrow> tokenType \<Rightarrow> ShopifySession list
     \<Rightarrow> (error + ShopifyTokenExchangeResponse) \<times> ShopifySession list" where
  "exchangeSessionToken E sessionToken tt rows =
     (case
        bindE (validateSessionToken E sessionToken) (\<lambda>payload.
        bindE (extractShopFromPayload E payload) (\<lambda>shp.
        bindE (performTokenExchange E shp sessionToken tt) (\<lambda>response.
        bindE (storeSession E shp payload response tt rows) (\<lambda>(savedSession, rows').
        Inr (response, rows')))))
      of Inl err \<Rightarrow> (Inl (TokenExchangeFailed err), rows)
       | Inr (response, rows') \<Rightarrow> (Inr response, rows'))"

text \<open>
  \<open>invalidateSession\<close> returns nothing (\<open>Promise<void>\<close>); the third component is the
  count \<open>result.affected\<close> that it writes to the log.
\<close>

definition invalidateSession ::
  "env \<Rightarrow> string \<Rightarrow> ShopifySession list \<Rightarrow> (error + unit) \<times> ShopifySession list \<times> nat option" where
  "invalidateSession E shp rows =
     (case sanitizeShop (production E) shp of
        Inl err \<Rightarrow> (Inl (FailedToInvalidate shp), rows, None)
      | Inr sanitizedShop \<Rightarrow>
          (let rows' = deactivate sanitizedShop (nowMs E) rows
           in if \<not> dbAccepts E rows' then (Inl (FailedToInvalidate shp), rows, None)
              else (Inr (), rows', Some (affected sanitizedShop rows))))"

section \<open>\<open>JWKSService\<close>\<close>

text \<open>The two maps of the service, \<open>jwksCache\<close> and \<open>cacheExpiry\<close>.\<close>

record jwks_state =
  jwksCache :: "string \<Rightarrow> JWKSKey list option"
  cacheExpiry :: "string \<Rightarrow> int option"

definition CACHE_TTL :: int where
  "CACHE_TTL = 3600000"

definition isValidCache :: "env \<Rightarrow> jwks_state \<Rightarrow> string \<Rightarrow> bool" where
  "isValidCache E st cacheKey =
     (case cacheExpiry st cacheKey of
        None \<Rightarrow> False
      | Some expiry \<Rightarrow> if expiry \<noteq> 0 then nowMs E < expiry else False)"

text \<open>
  \<open>getShopifyJWKS\<close>; on a cache hit the result is \<open>this.jwksCache.get(cacheKey)!\<close>, which
  is \<open>undefined\<close> (\<open>None\<close>) when the key map has no entry.
\<close>

definition getShopifyJWKS ::
  "env \<Rightarrow> jwks_state \<Rightarrow> string \<Rightarrow> (error + JWKSKey list option) \<times> jwks_state" where
  "getShopifyJWKS E st shp =
     (let cacheKey = ''shopify_'' @ shp in
      if isValidCache E st cacheKey then (Inr (jwksCache st cacheKey), st)
      else
        (case fetchJwks E (''https://'' @ shp @ ''/.well-known/jwks.json'') of
           JwksNetworkFailure msg \<Rightarrow> (Inl (LibraryError msg), st)
         | JwksResponse status body \<Rightarrow>
             if \<not> responseOk status then (Inl (JwksFetchFailed status), st)
             else (case body of
                     JsonThrows \<Rightarrow> (Inl (LibraryError ''Unexpected token in JSON''), st)
                   | NoKeysArray \<Rightarrow> (Inl InvalidJwksFormat, st)
                   | Keys ks \<Rightarrow>
                       (Inr (Some ks),
                        st\<lparr> jwksCache := (jwksCache st)(cacheKey \<mapsto> ks),
                            cacheExpiry := (cacheExpiry st)(cacheKey \<mapsto> nowMs E + CACHE_TTL) \<rparr>))))"

text \<open>\<open>verifyJWT\<close>: every error inside is rethrown as \<open>'JWT verification failed: ...'\<close>.\<close>

definition verifyJWT ::
  "env \<Rightarrow> jwks_state \<Rightarrow> string \<Rightarrow> string \<Rightarrow> (error + SessionTokenPayload) \<times> jwks_state" where
  "verifyJWT E st token shp =
     (case getShopifyJWKS E st shp of (r, st') \<Rightarrow>
        ((case
            bindE r (\<lambda>keys.
            bindE (lib (joseDecodeProtectedHeader E token)) (\<lambda>headerKid.
              case headerKid of
                None \<Rightarrow> Inl MissingKid
              | Some k \<Rightarrow>
                  if k = [] then Inl MissingKid
                  else (case keys of
                          None \<Rightarrow> Inl KeysUndefined
                        | Some ks \<Rightarrow>
                            (case find (\<lambda>key. kid key = k) ks of
                               None \<Rightarrow> Inl (NoMatchingKey k)
                             | Some key \<Rightarrow>
                                 bindE (lib (joseImportJWK E key)) (\<lambda>publicKey.
                                 lib (joseJwtVerify E token publicKey (''https://'' @ shp) (apiKey E)))))))
          of Inl err \<Rightarrow> Inl (JwtVerificationFailed err) | Inr payload \<Rightarrow> Inr payload),
         st'))"

text \<open>\<open>JWKSService.validateSessionToken\<close>\<close>

definition jwks_validateSessionToken ::
  "env \<Rightarrow> jwks_state \<Rightarrow> string \<Rightarrow> (error + SessionTokenPayload) \<times> jwks_state" where
  "jwks_validateSessionToken E st token =
     (case lib (joseDecodeJwt E token) of
        Inl err \<Rightarrow> (Inl err, st)
      | Inr payload \<Rightarrow>
          (case iss payload of
             None \<Rightarrow> (Inl MissingIssuer, st)
           | Some i \<Rightarrow>
               if i = [] then (Inl MissingIssuer, st)
               else (case urlHostname E i of
                       None \<Rightarrow> (Inl (LibraryError ''Invalid URL''), st)
                     | Some shp \<Rightarrow> verifyJWT E st token shp)))"

section \<open>\<open>ShopifySessionGuard\<close>\<close>

definition extractDomainFromUrl :: "env \<Rightarrow> string \<Rightarrow> error + string" where
  "extractDomainFromUrl E url =
     (case urlHostname E url of None \<Rightarrow> Inl InvalidUrlFormat | Some h \<Rightarrow> Inr h)"

text \<open>
  \<open>validateTokenClaims\<close>.  A comparison with an absent claim (\<open>undefined <= now\<close>) is
  false; \<open>clientId\<close> is \<open>configService.get('SHOPIFY_API_KEY')\<close>, which may be \<open>undefined\<close>.
\<close>

definition validateTokenClaims :: "env \<Rightarrow> SessionTokenPayload \<Rightarrow> error + unit" where
  "validateTokenClaims E token =
     (let now = nowSec E; clientId = apiKey E in
      if (case exp token of None \<Rightarrow> False | Some x \<Rightarrow> x \<le> now) then Inl GuardTokenExpired
      else if (case nbf token of None \<Rightarrow> False | Some x \<Rightarrow> x > now) then Inl GuardTokenNotYetValid
      else if aud token \<noteq> clientId then Inl GuardInvalidAudience
      else
        bindE (extractDomainFromUrl E (case iss token of None \<Rightarrow> [] | Some i \<Rightarrow> i)) (\<lambda>issuerDomain.
        bindE (extractDomainFromUrl E (case dest token of None \<Rightarrow> [] | Some d \<Rightarrow> d)) (\<lambda>destDomain.
          if issuerDomain \<noteq> destDomain then Inl DomainsDoNotMatch
          else if \<not> endsWith destDomain ''.myshopify.com'' then Inl GuardInvalidShopDomain
          else Inr ())))"

text \<open>
  \<open>validateWithSecret\<close>: the missing secret is thrown as it is; every error of the \<open>try\<close>
  block is rethrown as \<open>'JWT validation failed: ...'\<close>.
\<close>

definition validateWithSecret :: "env \<Rightarrow> string \<Rightarrow> error + SessionTokenPayload" where
  "validateWithSecret E token =
     (case apiSecret E of
        None \<Rightarrow> Inl SecretNotConfigured
      | Some clientSecret \<Rightarrow>
          if clientSecret = [] then Inl SecretNotConfigured
          else
            (case
               bindE (lib (jwtVerify E token clientSecret)) (\<lambda>decoded.
                 case decoded of
                   None \<Rightarrow> Inl InvalidTokenFormat
                 | Some typedDecoded \<Rightarrow>
                     bindE (validateTokenClaims E typedDecoded) (\<lambda>_. Inr typedDecoded))
             of Inl err \<Rightarrow> Inl (JwtValidationFailed err)
              | Inr typedDecoded \<Rightarrow> Inr typedDecoded))"

text \<open>
  \<open>ShopifySessionGuard.validateSessionToken\<close>: the key-set strategy and the claim checks
  sit in one \<open>try\<close>; its \<open>catch\<close> runs the shared-secret strategy.
\<close>

definition guard_validateSessionToken ::
  "env \<Rightarrow> jwks_state \<Rightarrow> string \<Rightarrow> (error + SessionTokenPayload) \<times> jwks_state" where
  "guard_validateSessionToken E st token =
     (case jwks_validateSessionToken E st token of (r, st') \<Rightarrow>
        (case bindE r (\<lambda>decoded. bindE (validateTokenClaims E decoded) (\<lambda>_. Inr decoded)) of
           Inr decoded \<Rightarrow> (Inr decoded, st')
         | Inl err \<Rightarrow> (validateWithSecret E token, st')))"

section \<open>Example tokens, environment and tables\<close>

text \<open>
  A shop \<open>demo-shop\<close>, the client id \<open>abc\<close>, the secret \<open>shh\<close> and the clock at second
  1000.  The tokens of the first table are signed with the secret (\<open>HS256\<close>), except
  the two forged ones, whose signatures do not verify.  The \<open>keyset\<close> tokens are signed
  with the key \<open>k1\<close> of the shop (\<open>RS256\<close>, with \<open>kid\<close> in the header); their issuer is
  the shop's origin, as the key-set verification expects it.
\<close>

definition demoPayload :: SessionTokenPayload where
  "demoPayload =
     \<lparr> iss = Some ''https://demo-shop.myshopify.com/admin'',
       dest = Some ''https://demo-shop.myshopify.com'',
       aud = Some ''abc'', sub = Some ''42'',
       exp = Some 1060, nbf = Some 1000, iat = Some 1000,
       jti = Some ''jti-1'', sid = Some ''sid-1'' \<rparr>"

definition demoClaims :: "(string \<times> SessionTokenPayload) list" where
  "demoClaims =
     [(''good.jwt'', demoPayload),
      (''noexp.jwt'', demoPayload\<lparr>exp := None\<rparr>),
      (''expired.jwt'', demoPayload\<lparr>exp := Some 999\<rparr>),
      (''forged.jwt'', demoPayload\<lparr>exp := Some 999\<rparr>),
      (''expired-notactive.jwt'', demoPayload\<lparr>exp := Some 999, nbf := Some 2000\<rparr>),
      (''wrongaud.jwt'', demoPayload\<lparr>aud := Some ''wrong''\<rparr>),
      (''wrongaud-forged.jwt'', demoPayload\<lparr>aud := Some ''wrong''\<rparr>),
      (''wrongaud-expired.jwt'', demoPayload\<lparr>aud := Some ''wrong'', exp := Some 999\<rparr>),
      (''wrongaud-notactive.jwt'', demoPayload\<lparr>aud := Some ''wrong'', nbf := Some 2000\<rparr>),
      (''wrongaud-nosub.jwt'', demoPayload\<lparr>aud := Some ''wrong'', sub := None\<rparr>),
      (''mismatch.jwt'', demoPayload\<lparr>dest := Some ''https://other-shop.myshopify.com''\<rparr>),
      (''keyset.jwt'', demoPayload\<lparr>iss := Some ''https://demo-shop.myshopify.com''\<rparr>),
      (''keyset-wrongaud.jwt'',
         demoPayload\<lparr>iss := Some ''https://demo-shop.myshopify.com'', aud := Some ''wrong''\<rparr>),
      (''keyset-mismatch.jwt'',
         demoPayload\<lparr>iss := Some ''https://demo-shop.myshopify.com'',
                       dest := Some ''https://other-shop.myshopify.com''\<rparr>)]"

definition demoDecode :: "string \<Rightarrow> decoded" where
  "demoDecode token = (case map_of demoClaims token of None \<Rightarrow> Malformed | Some p \<Rightarrow> Claims p)"

definition demoHmacValid :: "string \<Rightarrow> string \<Rightarrow> bool" where
  "demoHmacValid token secret =
     (secret = ''shh''
      \<and> token \<in> set [''good.jwt'', ''noexp.jwt'', ''expired.jwt'', ''expired-notactive.jwt'',
                      ''wrongaud.jwt'', ''wrongaud-expired.jwt'', ''wrongaud-notactive.jwt'',
                      ''wrongaud-nosub.jwt'', ''mismatch.jwt''])"

definition demoHeaderAlg :: "string \<Rightarrow> string" where
  "demoHeaderAlg token =
     (if token \<in> set [''keyset.jwt'', ''keyset-wrongaud.jwt'', ''keyset-mismatch.jwt'']
      then ''RS256'' else ''HS256'')"

definition demoKey :: JWKSKey where
  "demoKey = \<lparr> kty = ''RSA'', kid = ''k1'', jwk_use = ''sig'', jwk_n = ''n'', jwk_e = ''AQAB'',
                alg = ''RS256'' \<rparr>"

definition demoKeyValid :: "string \<Rightarrow> JWKSKey \<Rightarrow> bool" where
  "demoKeyValid token key =
     (key = demoKey
      \<and> token \<in> set [''keyset.jwt'', ''keyset-wrongaud.jwt'', ''keyset-mismatch.jwt''])"

definition demoHeaderKid :: "string \<Rightarrow> string + string option" where
  "demoHeaderKid token =
     (if token \<in> set [''keyset.jwt'', ''keyset-wrongaud.jwt'', ''keyset-mismatch.jwt'']
      then Inr (Some ''k1'')
      else (case map_of demoClaims token of None \<Rightarrow> Inl ''Invalid Token'' | Some p \<Rightarrow> Inr None))"

definition demoHostname :: "string \<Rightarrow> string option" where
  "demoHostname u =
     (if u = ''https://demo-shop.myshopify.com/admin'' \<or> u = ''https://demo-shop.myshopify.com''
      then Some ''demo-shop.myshopify.com''
      else if u = ''https://other-shop.myshopify.com'' then Some ''other-shop.myshopify.com''
      else None)"

definition demoResponse :: ShopifyTokenExchangeResponse where
  "demoResponse =
     \<lparr> access_token = ''tok1'', scope = ''read_products'', expires_in = None,
       associated_user_scope = None, associated_user = None \<rparr>"

definition demoOnlineResponse :: ShopifyTokenExchangeResponse where
  "demoOnlineResponse =
     \<lparr> access_token = ''online-tok'', scope = ''read_products'', expires_in = Some 86400,
       associated_user_scope = Some ''read_products'', associated_user = None \<rparr>"

definition demoFetchToken :: "string \<Rightarrow> ShopifyTokenExchangeRequest \<Rightarrow> http_result" where
  "demoFetchToken url body =
     (if url = ''https://demo-shop.myshopify.com/admin/oauth/access_token''
      then (if requested_token_type body = ''urn:shopify:params:oauth:token-type:online-access-token''
            then HttpResponse 200 [] (Some demoOnlineResponse)
            else HttpResponse 200 [] (Some demoResponse))
      else NetworkFailure ''ENOTFOUND'')"

text \<open>
  The example datastore enforces the constraints of the \<open>shopify_sessions\<close> table: the
  primary key \<open>id\<close>, \<open>NOT NULL\<close> on \<open>user_id\<close> and \<open>access_token\<close>, and
  \<open>UNIQUE (shop, user_id)\<close>.
\<close>

definition schemaAccepts :: "ShopifySession list \<Rightarrow> bool" where
  "schemaAccepts rows =
     (distinct (map id_col rows)
      \<and> list_all (\<lambda>r. userId r \<noteq> None \<and> accessToken r \<noteq> None) rows
      \<and> distinct (map (\<lambda>r. (shop r, userId r)) rows))"

definition demoEnv :: env where
  "demoEnv =
     \<lparr> production = True, nowMs = 1000500, apiKey = Some ''abc'', apiSecret = Some ''shh'',
       decodeToken = demoDecode, headerAlg = demoHeaderAlg, hmacValid = demoHmacValid, keyValid = demoKeyValid,
       fetchToken = demoFetchToken, dbAccepts = schemaAccepts,
       urlHostname = demoHostname,
       fetchJwks = (\<lambda>url. JwksNetworkFailure ''ECONNREFUSED''),
       joseDecodeProtectedHeader = demoHeaderKid,
       joseImportJWK = (\<lambda>k. Inr k) \<rparr>"

text \<open>The same, with an identity provider that answers 401.\<close>

definition demoRejectEnv :: env where
  "demoRejectEnv = demoEnv\<lparr>fetchToken := (\<lambda>url body. HttpResponse 401 ''Unauthorized'' None)\<rparr>"

text \<open>The same, with a reachable key-set endpoint that publishes the key \<open>k1\<close>.\<close>

definition demoJwksEnv :: env where
  "demoJwksEnv =
     demoEnv\<lparr> fetchJwks := (\<lambda>url. if url = ''https://demo-shop.myshopify.com/.well-known/jwks.json''
                                     then JwksResponse 200 (Keys [demoKey])
                                     else JwksNetworkFailure ''ENOTFOUND'') \<rparr>"

definition demoCache :: jwks_state where
  "demoCache = \<lparr> jwksCache = (\<lambda>k. None), cacheExpiry = (\<lambda>k. None) \<rparr>"

definition demoRow :: ShopifySession where
  "demoRow =
     \<lparr> id_col = ''sid-0'', shop = ''demo-shop.myshopify.com'', userId = Some ''7'',
       accessToken = Some ''old'', onlineAccessToken = None, scopes = [''read_orders''],
       expiresAt = None, userInfo = None, createdAt = 1, updatedAt = 1, isActive = True \<rparr>"

text \<open>
  A table with an active row of the shop and one of another shop; and the table that an
  offline exchange followed by an online exchange in the same session leaves behind: one
  active row under the session id of the example tokens, with the online token and its
  expiry.
\<close>

definition demoRows :: "ShopifySession list" where
  "demoRows = [demoRow, demoRow\<lparr>id_col := ''sid-9'', shop := ''other-shop.myshopify.com''\<rparr>]"

definition demoRowsSameId :: "ShopifySession list" where
  "demoRowsSameId =
     [\<lparr> id_col = ''sid-1'', shop = ''demo-shop.myshopify.com'', userId = Some ''42'',
        accessToken = Some ''tok1'', onlineAccessToken = Some ''online-tok'',
        scopes = [''read_products''], expiresAt = Some 87400500, userInfo = None,
        createdAt = 1000500, updatedAt = 1000500, isActive = True \<rparr>]"

section \<open>Basic facts\<close>

lemma bindE_simps: "bindE (Inl err) f = Inl err" "bindE (Inr x) f = f x"
  by (simp_all add: bindE_def)

lemma sanitizeShop_production:
  "sanitizeShop True s = Inr r \<Longrightarrow>
     takeWhile isShopNameChar (removeProtocol (toLowerCase (trim s))) \<noteq> [] \<and>
     r = takeWhile isShopNameChar (removeProtocol (toLowerCase (trim s))) @ ''.myshopify.com''"
  by (auto simp: sanitizeShop_def shopMatch_def Let_def split: if_splits option.splits)

lemma extractShop_production:
  "production E \<Longrightarrow> extractShopFromPayload E p = Inr shp \<Longrightarrow> endsWith shp ''.myshopify.com''"
  by (auto simp: extractShopFromPayload_def Let_def endsWith_def suffix_def
           dest!: sanitizeShop_production split: if_splits)

lemma validateSessionToken_fetchToken [simp]:
  "validateSessionToken (E\<lparr>fetchToken := f\<rparr>) tok = validateSessionToken E tok"
  by (simp add: validateSessionToken_def validateTokenPayload_def extractShopFromPayload_def
        jwtVerify_def nowSec_def Let_def
        cong: option.case_cong if_cong sum.case_cong decoded.case_cong)

lemma extractShop_fetchToken [simp]:
  "extractShopFromPayload (E\<lparr>fetchToken := f\<rparr>) p = extractShopFromPayload E p"
  by (simp add: extractShopFromPayload_def Let_def)

lemma storeSession_fetchToken [simp]:
  "storeSession (E\<lparr>fetchToken := f\<rparr>) shp p resp tt rows = storeSession E shp p resp tt rows"
  by (simp add: storeSession_def createSession_def Let_def cong: option.case_cong if_cong)

lemma performTokenExchange_cong:
  "(\<And>body. f (tokenExchangeUrl shp) body = fetchToken E (tokenExchangeUrl shp) body) \<Longrightarrow>
   performTokenExchange (E\<lparr>fetchToken := f\<rparr>) shp tok tt = performTokenExchange E shp tok tt"
  by (simp add: performTokenExchange_def)

lemma exchange_only_myshopify:
  assumes "production E"
    and "\<And>shp body. endsWith shp ''.myshopify.com'' \<Longrightarrow>
           f (tokenExchangeUrl shp) body = fetchToken E (tokenExchangeUrl shp) body"
  shows "exchangeSessionToken (E\<lparr>fetchToken := f\<rparr>) tok tt rows = exchangeSessionToken E tok tt rows"
proof (cases "validateSessionToken E tok")
  case (Inl a)
  then show ?thesis by (simp add: exchangeSessionToken_def bindE_simps)
next
  case (Inr p)
  show ?thesis
  proof (cases "extractShopFromPayload E p")
    case (Inl a)
    with Inr show ?thesis by (simp add: exchangeSessionToken_def bindE_simps)
  next
    case shp: (Inr shp)
    from assms(1) shp have "endsWith shp ''.myshopify.com''" by (rule extractShop_production)
    then have "performTokenExchange (E\<lparr>fetchToken := f\<rparr>) shp tok tt = performTokenExchange E shp tok tt"
      using assms(2) by (intro performTokenExchange_cong) simp
    with Inr shp show ?thesis by (simp add: exchangeSessionToken_def bindE_simps)
  qed
qed


lemma getRequiredConfig_Some: "v \<noteq> [] \<Longrightarrow> getRequiredConfig k (Some v) = Inr v"
  by (simp add: getRequiredConfig_def)

lemma deactivateRow_id [simp]: "id_col (deactivateRow shp t r) = id_col r"
  by (simp add: deactivateRow_def)

lemma deactivateRow_inactive:
  "\<not> (shop (deactivateRow shp t r) = shp \<and> isActive (deactivateRow shp t r))"
  by (simp add: deactivateRow_def)

lemma deactivateRow_idle: "\<not> (shop r = shp \<and> isActive r) \<Longrightarrow> deactivateRow shp t r = r"
  unfolding deactivateRow_def by (rule if_not_P)

lemma deactivate_ids [simp]: "map id_col (deactivate shp t rows) = map id_col rows"
  by (simp add: deactivate_def o_def)

lemma deactivate_none_active:
  assumes "r \<in> set (deactivate shp t rows)"
  shows "\<not> (shop r = shp \<and> isActive r)"
proof -
  from assms obtain r0 where "r = deactivateRow shp t r0"
    unfolding deactivate_def by (metis imageE list.set_map)
  then show ?thesis by (simp only: deactivateRow_inactive not_False_eq_True)
qed

lemma affected_none: "(\<forall>r\<in>set rows. \<not> (shop r = shp \<and> isActive r)) \<Longrightarrow> affected shp rows = 0"
  by (simp add: affected_def activeSessions_def filter_empty_conv)

lemma affected_deactivate [simp]: "affected shp (deactivate shp t rows) = 0"
  by (rule affected_none) (blast dest: deactivate_none_active)

lemma deactivate_idle:
  "\<forall>r\<in>set rows. \<not> (shop r = shp \<and> isActive r) \<Longrightarrow> deactivate shp t rows = rows"
  unfolding deactivate_def by (rule map_idI) (simp add: deactivateRow_idle)

lemma deactivate_twice [simp]: "deactivate shp t' (deactivate shp t rows) = deactivate shp t rows"
  by (rule deactivate_idle) (blast dest: deactivate_none_active)

lemma list_ex_id: "list_ex (\<lambda>r. id_col r = i) rows \<longleftrightarrow> i \<in> set (map id_col rows)"
  by (auto simp: list_ex_iff)

lemma save_ids:
  "map id_col (save i s rows) = (if i \<in> set (map id_col rows) then map id_col rows else map id_col rows @ [i])"
proof -
  have "\<And>r. id_col (if id_col r = i then updatedRow r s else r) = id_col r"
    by (simp add: updatedRow_def)
  then show ?thesis
    by (simp add: save_def list_ex_id insertedRow_def o_def)
qed

lemma save_distinct: "distinct (map id_col rows) \<Longrightarrow> distinct (map id_col (save i s rows))"
  by (simp add: save_ids)

lemma count_update:
  "distinct (map id_col rows) \<Longrightarrow> \<forall>r\<in>set rows. \<not> P r \<Longrightarrow> \<forall>r. P (g r) \<Longrightarrow> i \<in> set (map id_col rows) \<Longrightarrow>
   length (filter P (map (\<lambda>r. if id_col r = i then g r else r) rows)) = 1"
proof (induction rows)
  case Nil
  then show ?case by simp
next
  case (Cons a rows)
  show ?case
  proof (cases "id_col a = i")
    case True
    with Cons.prems have "\<forall>r\<in>set rows. id_col r \<noteq> i" by (auto simp: image_iff)
    then have "map (\<lambda>r. if id_col r = i then g r else r) rows = rows" by (intro map_idI) simp
    with True Cons.prems show ?thesis by (simp add: filter_empty_conv)
  next
    case False
    with Cons show ?thesis by auto
  qed
qed

lemma affected_save:
  assumes "distinct (map id_col rows)" and "\<forall>r\<in>set rows. \<not> (shop r = shp \<and> isActive r)"
    and "e_shop s = shp" and "e_isActive s"
  shows "affected shp (save i s rows) = 1"
proof (cases "i \<in> set (map id_col rows)")
  case True
  have "length (filter (\<lambda>r. shop r = shp \<and> isActive r)
          (map (\<lambda>r. if id_col r = i then updatedRow r s else r) rows)) = 1"
    using assms True by (intro count_update) (auto simp: updatedRow_def)
  with True show ?thesis by (simp add: affected_def activeSessions_def save_def list_ex_id)
next
  case False
  with assms show ?thesis
    by (auto simp: affected_def activeSessions_def save_def list_ex_id insertedRow_def filter_empty_conv)
qed

lemma createSession_shop [simp]: "e_shop (createSession E shp p resp tt) = shp"
  and createSession_active [simp]: "e_isActive (createSession E shp p resp tt)"
  and createSession_id [simp]: "e_id (createSession E shp p resp tt) = sidOrJti p"
  by (simp_all add: createSession_def Let_def)

lemma storeSession_Inr:
  "storeSession E shp p resp tt rows = Inr (s, rows') \<Longrightarrow>
     \<exists>i. sidOrJti p = Some i \<and> s = createSession E shp p resp tt
        \<and> rows' = save i s (deactivate shp (nowMs E) rows)"
  by (auto simp: storeSession_def Let_def split: option.splits if_splits)

lemma exchange_Inr:
  assumes "exchangeSessionToken E tok tt rows = (Inr resp, rows')"
  shows "\<exists>p shp i. validateSessionToken E tok = Inr p \<and> extractShopFromPayload E p = Inr shp
           \<and> performTokenExchange E shp tok tt = Inr resp \<and> sidOrJti p = Some i
           \<and> rows' = save i (createSession E shp p resp tt) (deactivate shp (nowMs E) rows)"
proof -
  from assms obtain p where p: "validateSessionToken E tok = Inr p"
    by (cases "validateSessionToken E tok") (auto simp: exchangeSessionToken_def bindE_simps)
  with assms obtain shp where shp: "extractShopFromPayload E p = Inr shp"
    by (cases "extractShopFromPayload E p") (auto simp: exchangeSessionToken_def bindE_simps)
  with assms p obtain r where r: "performTokenExchange E shp tok tt = Inr r"
    by (cases "performTokenExchange E shp tok tt") (auto simp: exchangeSessionToken_def bindE_simps)
  with assms p shp obtain s where s: "storeSession E shp p r tt rows = Inr (s, rows')" and "r = resp"
    by (cases "storeSession E shp p r tt rows") (auto simp: exchangeSessionToken_def bindE_simps)
  with storeSession_Inr[OF s] p shp r show ?thesis by auto
qed

lemma exchange_Inl:
  "exchangeSessionToken E tok tt rows = (Inl err, rows') \<Longrightarrow> rows' = rows"
  unfolding exchangeSessionToken_def by (simp split: sum.splits prod.splits)

lemma findById_None_iff: "findById i rows = None \<longleftrightarrow> i \<notin> set (map id_col rows)"
  by (auto simp: findById_def find_None_iff)

lemma findById_append_new:
  "i \<notin> set (map id_col rows) \<Longrightarrow> id_col r = i \<Longrightarrow> findById i (rows @ [r]) = Some r"
  by (induction rows) (auto simp: findById_def)

lemma findById_map_update:
  "findById i rows = Some r \<Longrightarrow> id_col (g r) = i \<Longrightarrow>
   findById i (map (\<lambda>r. if id_col r = i then g r else r) rows) = Some (g r)"
  by (induction rows) (simp_all add: findById_def split: if_splits)

lemma insertedRow_id [simp]: "id_col (insertedRow i s) = i"
  by (simp add: insertedRow_def)

lemma updatedRow_id [simp]: "id_col (updatedRow r s) = id_col r"
  by (simp add: updatedRow_def)

lemma findById_id: "findById i rows = Some r \<Longrightarrow> id_col r = i"
  unfolding findById_def by (induction rows) (simp_all split: if_splits)

lemma findById_save:
  "findById i (save i s rows) =
     Some (case findById i rows of None \<Rightarrow> insertedRow i s | Some r \<Rightarrow> updatedRow r s)"
proof (cases "findById i rows")
  case None
  then have "i \<notin> set (map id_col rows)" by (simp add: findById_None_iff)
  with None show ?thesis by (simp add: save_def list_ex_id findById_append_new)
next
  case (Some r)
  then have "i \<in> set (map id_col rows)" using findById_None_iff[of i rows] by simp
  moreover have "id_col (updatedRow r s) = i" using Some by (simp add: findById_id)
  ultimately show ?thesis
    using Some findById_map_update[of i rows r "\<lambda>r. updatedRow r s"]
    by (simp add: save_def list_ex_id)
qed

lemma save_others:
  assumes "r \<in> set (save i s rows)" and "id_col r \<noteq> i"
  shows "r \<in> set rows"
proof (cases "list_ex (\<lambda>r. id_col r = i) rows")
  case True
  with assms(1) have "r \<in> (\<lambda>r. if id_col r = i then updatedRow r s else r) ` set rows"
    by (simp add: save_def)
  then obtain r0 where r0: "r = (if id_col r0 = i then updatedRow r0 s else r0)" "r0 \<in> set rows" ..
  have "id_col r0 \<noteq> i"
  proof
    assume "id_col r0 = i"
    with r0(1) have "id_col r = i" by simp
    with assms(2) show False ..
  qed
  with r0 show ?thesis by simp
next
  case False
  with assms(1) have "r \<in> set (rows @ [insertedRow i s])" by (simp only: save_def if_False)
  then have "r \<in> set rows \<or> r = insertedRow i s" by (simp only: set_append set_simps Un_iff insert_iff empty_iff) blast
  moreover have "r \<noteq> insertedRow i s" using assms(2) by (rule contrapos_nn) simp
  ultimately show ?thesis by blast
qed

lemma createSession_offline:
  "e_accessToken (createSession E shp p resp offline) = Some (access_token resp)"
  "e_expiresAt (createSession E shp p resp offline) = None"
  "e_scope (createSession E shp p resp offline)
     = (if scope resp \<noteq> [] then split CHR '','' (scope resp) else [])"
  by (simp_all add: createSession_def Let_def)

lemma split_read_products: "split CHR '','' ''read_products'' = [''read_products'']"
  by code_simp

lemma savedRow_fields:
  "shop (case fo of None \<Rightarrow> insertedRow i s | Some r \<Rightarrow> updatedRow r s) = e_shop s"
  "scopes (case fo of None \<Rightarrow> insertedRow i s | Some r \<Rightarrow> updatedRow r s) = e_scope s"
  "isActive (case fo of None \<Rightarrow> insertedRow i s | Some r \<Rightarrow> updatedRow r s) = e_isActive s"
  by (cases fo; simp add: insertedRow_def updatedRow_def)+

lemma savedRow_accessToken:
  "e_accessToken s = Some a \<Longrightarrow>
   accessToken (case fo of None \<Rightarrow> insertedRow i s | Some r \<Rightarrow> updatedRow r s) = Some a"
  by (cases fo; simp add: insertedRow_def updatedRow_def orElse_def)

lemma insertedRow_expiresAt: "expiresAt (insertedRow i s) = e_expiresAt s"
  by (simp add: insertedRow_def)

lemma deactivate_other_shop:
  assumes "r \<in> set rows" and "shop r \<noteq> shp"
  shows "r \<in> set (deactivate shp t rows)"
proof -
  from assms(2) have "deactivateRow shp t r = r" by (intro deactivateRow_idle) simp
  with assms(1) show ?thesis unfolding deactivate_def by (metis imageI list.set_map)
qed

subsection \<open>The two token validators\<close>




lemma joseJwtVerify_Inr_iff:
  "joseJwtVerify E tok pk issuer audience = Inr d \<longleftrightarrow>
     keyValid E tok pk \<and> decodeToken E tok = Claims d \<and> iss d = Some issuer
     \<and> (audience \<noteq> None \<longrightarrow> aud d \<noteq> None) \<and> (truthy audience \<longrightarrow> aud d = audience)
     \<and> (\<forall>x. nbf d = Some x \<longrightarrow> x \<le> nowSec E) \<and> (\<forall>x. exp d = Some x \<longrightarrow> nowSec E < x)"
proof (cases "decodeToken E tok")
  case Malformed
  then show ?thesis by (simp add: joseJwtVerify_def)
next
  case NotAnObject
  then show ?thesis by (simp add: joseJwtVerify_def)
next
  case (Claims q)
  show ?thesis
  proof (cases "q = d")
    case True
    with Claims show ?thesis
      by (cases "nbf d"; cases "exp d") (auto simp: joseJwtVerify_def)
  next
    case False
    with Claims show ?thesis by (simp add: joseJwtVerify_def)
  qed
qed

lemma verifyJWT_state: "snd (verifyJWT E st tok shp) = snd (getShopifyJWKS E st shp)"
  by (cases "getShopifyJWKS E st shp") (simp add: verifyJWT_def)

lemma verifyJWT_Inr_iff:
  "fst (verifyJWT E st tok shp) = Inr d \<longleftrightarrow>
     (\<exists>ks k key pk. fst (getShopifyJWKS E st shp) = Inr (Some ks)
        \<and> joseDecodeProtectedHeader E tok = Inr (Some k) \<and> k \<noteq> []
        \<and> find (\<lambda>key. kid key = k) ks = Some key
        \<and> joseImportJWK E key = Inr pk
        \<and> joseJwtVerify E tok pk (''https://'' @ shp) (apiKey E) = Inr d)"
proof (cases "getShopifyJWKS E st shp")
  case (Pair r st')
  show ?thesis
  proof (cases r)
    case (Inl e)
    with Pair show ?thesis by (simp add: verifyJWT_def bindE_simps)
  next
    case (Inr keys)
    show ?thesis
    proof (cases "joseDecodeProtectedHeader E tok")
      case (Inl m)
      with Pair Inr show ?thesis by (simp add: verifyJWT_def bindE_simps lib_def)
    next
      case h: (Inr ko)
      show ?thesis
      proof (cases ko)
        case None
        with Pair Inr h show ?thesis by (simp add: verifyJWT_def bindE_simps lib_def)
      next
        case (Some k)
        show ?thesis
        proof (cases "k = []")
          case True
          with Pair Inr h Some show ?thesis by (simp add: verifyJWT_def bindE_simps lib_def)
        next
          case ne: False
          show ?thesis
          proof (cases keys)
            case None
            with Pair Inr h Some ne show ?thesis by (simp add: verifyJWT_def bindE_simps lib_def)
          next
            case ks: (Some ks)
            show ?thesis
            proof (cases "find (\<lambda>key. kid key = k) ks")
              case None
              with Pair Inr h Some ne ks show ?thesis
                by (simp add: verifyJWT_def bindE_simps lib_def)
            next
              case key: (Some key)
              show ?thesis
              proof (cases "joseImportJWK E key")
                case (Inl m)
                with Pair Inr h Some ne ks key show ?thesis
                  by (simp add: verifyJWT_def bindE_simps lib_def)
              next
                case pk: (Inr pk)
                with Pair Inr h Some ne ks key show ?thesis
                  by (cases "joseJwtVerify E tok pk (''https://'' @ shp) (apiKey E)")
                     (simp_all add: verifyJWT_def bindE_simps lib_def)
              qed
            qed
          qed
        qed
      qed
    qed
  qed
qed

lemma jwks_Inr_iff:
  "fst (jwks_validateSessionToken E st tok) = Inr d \<longleftrightarrow>
     (\<exists>i shp ks k key pk. decodeToken E tok = Claims d \<and> iss d = Some i \<and> i \<noteq> []
        \<and> urlHostname E i = Some shp
        \<and> fst (getShopifyJWKS E st shp) = Inr (Some ks)
        \<and> joseDecodeProtectedHeader E tok = Inr (Some k) \<and> k \<noteq> []
        \<and> find (\<lambda>key. kid key = k) ks = Some key
        \<and> joseImportJWK E key = Inr pk
        \<and> joseJwtVerify E tok pk (''https://'' @ shp) (apiKey E) = Inr d)"
proof (cases "decodeToken E tok")
  case Malformed
  then show ?thesis by (simp add: jwks_validateSessionToken_def joseDecodeJwt_def lib_def)
next
  case NotAnObject
  then show ?thesis by (simp add: jwks_validateSessionToken_def joseDecodeJwt_def lib_def)
next
  case (Claims q)
  show ?thesis
  proof (cases "iss q")
    case None
    with Claims show ?thesis
      by (auto simp: jwks_validateSessionToken_def joseDecodeJwt_def lib_def)
  next
    case (Some i)
    show ?thesis
    proof (cases "i = []")
      case True
      with Claims Some show ?thesis
        by (auto simp: jwks_validateSessionToken_def joseDecodeJwt_def lib_def)
    next
      case ne: False
      show ?thesis
      proof (cases "urlHostname E i")
        case None
        with Claims Some ne show ?thesis
          by (auto simp: jwks_validateSessionToken_def joseDecodeJwt_def lib_def)
      next
        case h: (Some shp)
        with Claims Some ne
        have "fst (jwks_validateSessionToken E st tok) = fst (verifyJWT E st tok shp)"
          by (simp add: jwks_validateSessionToken_def joseDecodeJwt_def lib_def)
        note eq = this
        have same: "q = d"
          if "joseJwtVerify E tok pk (''https://'' @ shp) (apiKey E) = Inr d" for pk
          using that Claims unfolding joseJwtVerify_Inr_iff by simp
        show ?thesis
        proof
          assume "fst (jwks_validateSessionToken E st tok) = Inr d"
          with eq have "fst (verifyJWT E st tok shp) = Inr d" by simp
          then obtain ks k key pk where v:
            "fst (getShopifyJWKS E st shp) = Inr (Some ks)"
            "joseDecodeProtectedHeader E tok = Inr (Some k)" "k \<noteq> []"
            "find (\<lambda>key. kid key = k) ks = Some key"
            "joseImportJWK E key = Inr pk"
            "joseJwtVerify E tok pk (''https://'' @ shp) (apiKey E) = Inr d"
            unfolding verifyJWT_Inr_iff by blast
          from same[OF v(6)] Claims Some have "decodeToken E tok = Claims d" "iss d = Some i"
            by simp_all
          with ne h v show "\<exists>i shp ks k key pk. decodeToken E tok = Claims d \<and> iss d = Some i \<and> i \<noteq> []
              \<and> urlHostname E i = Some shp
              \<and> fst (getShopifyJWKS E st shp) = Inr (Some ks)
              \<and> joseDecodeProtectedHeader E tok = Inr (Some k) \<and> k \<noteq> []
              \<and> find (\<lambda>key. kid key = k) ks = Some key
              \<and> joseImportJWK E key = Inr pk
              \<and> joseJwtVerify E tok pk (''https://'' @ shp) (apiKey E) = Inr d"
            by blast
        next
          assume "\<exists>i shp ks k key pk. decodeToken E tok = Claims d \<and> iss d = Some i \<and> i \<noteq> []
              \<and> urlHostname E i = Some shp
              \<and> fst (getShopifyJWKS E st shp) = Inr (Some ks)
              \<and> joseDecodeProtectedHeader E tok = Inr (Some k) \<and> k \<noteq> []
              \<and> find (\<lambda>key. kid key = k) ks = Some key
              \<and> joseImportJWK E key = Inr pk
              \<and> joseJwtVerify E tok pk (''https://'' @ shp) (apiKey E) = Inr d"
          then obtain i' shp' ks k key pk where w:
            "decodeToken E tok = Claims d" "iss d = Some i'" "urlHostname E i' = Some shp'"
            "fst (getShopifyJWKS E st shp') = Inr (Some ks)"
            "joseDecodeProtectedHeader E tok = Inr (Some k)" "k \<noteq> []"
            "find (\<lambda>key. kid key = k) ks = Some key"
            "joseImportJWK E key = Inr pk"
            "joseJwtVerify E tok pk (''https://'' @ shp') (apiKey E) = Inr d"
            by blast
          from w(1) Claims have "q = d" by simp
          with w(2) Some have "i' = i" by simp
          with w(3) h have "shp' = shp" by simp
          with w have "fst (verifyJWT E st tok shp) = Inr d"
            unfolding verifyJWT_Inr_iff by blast
          with eq show "fst (jwks_validateSessionToken E st tok) = Inr d" by simp
        qed
      qed
    qed
  qed
qed



lemma validateWithSecret_verified:
  assumes "apiSecret E = Some sec" and "sec \<noteq> []" and "jwtVerify E tok sec = Inr (Some p)"
  shows "validateWithSecret E tok =
           (case validateTokenClaims E p of Inl err \<Rightarrow> Inl (JwtValidationFailed err) | Inr u \<Rightarrow> Inr p)"
  using assms by (cases "validateTokenClaims E p") (simp_all add: validateWithSecret_def lib_def bindE_simps)

lemma validateWithSecret_unverified:
  assumes "apiSecret E = Some sec" and "sec \<noteq> []" and "jwtVerify E tok sec = Inl msg"
  shows "validateWithSecret E tok = Inl (JwtValidationFailed (LibraryError msg))"
  using assms by (simp add: validateWithSecret_def lib_def bindE_simps)

lemma validateWithSecret_Inr_iff:
  "validateWithSecret E tok = Inr d \<longleftrightarrow>
     (\<exists>sec. apiSecret E = Some sec \<and> sec \<noteq> [] \<and> jwtVerify E tok sec = Inr (Some d)
            \<and> validateTokenClaims E d = Inr ())"
proof (cases "apiSecret E")
  case None
  then show ?thesis by (simp add: validateWithSecret_def)
next
  case (Some sec)
  show ?thesis
  proof (cases "sec = []")
    case True
    with Some show ?thesis by (simp add: validateWithSecret_def)
  next
    case ne: False
    show ?thesis
    proof (cases "jwtVerify E tok sec")
      case (Inl msg)
      with Some ne show ?thesis by (simp add: validateWithSecret_unverified)
    next
      case (Inr po)
      show ?thesis
      proof (cases po)
        case None
        with Some ne Inr show ?thesis by (simp add: validateWithSecret_def lib_def bindE_simps)
      next
        case (Some p)
        with \<open>apiSecret E = Some sec\<close> ne Inr
        have "validateWithSecret E tok =
           (case validateTokenClaims E p of Inl err \<Rightarrow> Inl (JwtValidationFailed err) | Inr u \<Rightarrow> Inr p)"
          by (intro validateWithSecret_verified) simp_all
        with \<open>apiSecret E = Some sec\<close> ne Inr Some show ?thesis
          by (cases "validateTokenClaims E p") auto
      qed
    qed
  qed
qed

lemma guard_accept:
  assumes "fst (jwks_validateSessionToken E st tok) = Inr d" and "validateTokenClaims E d = Inr ()"
  shows "guard_validateSessionToken E st tok = (Inr d, snd (jwks_validateSessionToken E st tok))"
  using assms by (cases "jwks_validateSessionToken E st tok")
    (simp add: guard_validateSessionToken_def bindE_simps)

lemma guard_fallback_error:
  assumes "fst (jwks_validateSessionToken E st tok) = Inl err"
  shows "guard_validateSessionToken E st tok
           = (validateWithSecret E tok, snd (jwks_validateSessionToken E st tok))"
  using assms by (cases "jwks_validateSessionToken E st tok")
    (simp add: guard_validateSessionToken_def bindE_simps)

lemma guard_fallback_claims:
  assumes "fst (jwks_validateSessionToken E st tok) = Inr d" and "validateTokenClaims E d = Inl err"
  shows "guard_validateSessionToken E st tok
           = (validateWithSecret E tok, snd (jwks_validateSessionToken E st tok))"
  using assms by (cases "jwks_validateSessionToken E st tok")
    (simp add: guard_validateSessionToken_def bindE_simps)

lemma guard_state: "snd (guard_validateSessionToken E st tok) = snd (jwks_validateSessionToken E st tok)"
proof (cases "fst (jwks_validateSessionToken E st tok)")
  case (Inl err)
  then show ?thesis by (simp add: guard_fallback_error)
next
  case (Inr d)
  then show ?thesis
    by (cases "validateTokenClaims E d") (simp_all add: guard_fallback_claims guard_accept)
qed

lemma guard_Inr_iff:
  "(\<exists>d. fst (guard_validateSessionToken E st tok) = Inr d) \<longleftrightarrow>
     (\<exists>d. fst (jwks_validateSessionToken E st tok) = Inr d \<and> validateTokenClaims E d = Inr ())
     \<or> (\<exists>d. validateWithSecret E tok = Inr d)"
proof (cases "fst (jwks_validateSessionToken E st tok)")
  case (Inl err)
  then show ?thesis by (simp add: guard_fallback_error)
next
  case (Inr d)
  show ?thesis
  proof (cases "validateTokenClaims E d")
    case (Inl err)
    with Inr show ?thesis by (simp add: guard_fallback_claims)
  next
    case r: (Inr u)
    with Inr have "fst (guard_validateSessionToken E st tok) = Inr d" by (simp add: guard_accept)
    with Inr r show ?thesis by simp
  qed
qed


lemma jwks_network_failure:
  assumes "decodeToken E tok = Claims p0" and "iss p0 = Some i" and "i \<noteq> []"
    and "urlHostname E i = Some shp"
    and "\<not> isValidCache E st (''shopify_'' @ shp)"
    and "fetchJwks E (''https://'' @ shp @ ''/.well-known/jwks.json'') = JwksNetworkFailure msg"
  shows "jwks_validateSessionToken E st tok = (Inl (JwtVerificationFailed (LibraryError msg)), st)"
proof -
  have "getShopifyJWKS E st shp = (Inl (LibraryError msg), st)"
    using assms(5,6) by (simp add: getShopifyJWKS_def Let_def)
  then have "verifyJWT E st tok shp = (Inl (JwtVerificationFailed (LibraryError msg)), st)"
    by (simp add: verifyJWT_def bindE_simps)
  with assms(1-4) show ?thesis
    by (simp add: jwks_validateSessionToken_def joseDecodeJwt_def lib_def)
qed

lemma jwks_fetch_cached:
  assumes "decodeToken E tok = Claims p0" and "iss p0 = Some i" and "i \<noteq> []"
    and "urlHostname E i = Some shp"
    and "\<not> isValidCache E st (''shopify_'' @ shp)"
    and "fetchJwks E (''https://'' @ shp @ ''/.well-known/jwks.json'') = JwksResponse status (Keys ks)"
    and "responseOk status"
  shows "snd (jwks_validateSessionToken E st tok)
           = st\<lparr> jwksCache := (jwksCache st)(''shopify_'' @ shp \<mapsto> ks),
                 cacheExpiry := (cacheExpiry st)(''shopify_'' @ shp \<mapsto> nowMs E + CACHE_TTL) \<rparr>"
proof -
  have "snd (getShopifyJWKS E st shp)
           = st\<lparr> jwksCache := (jwksCache st)(''shopify_'' @ shp \<mapsto> ks),
                 cacheExpiry := (cacheExpiry st)(''shopify_'' @ shp \<mapsto> nowMs E + CACHE_TTL) \<rparr>"
    using assms(5-7) by (simp add: getShopifyJWKS_def Let_def)
  moreover have "jwks_validateSessionToken E st tok = verifyJWT E st tok shp"
    using assms(1-4) by (simp add: jwks_validateSessionToken_def joseDecodeJwt_def lib_def)
  ultimately show ?thesis by (simp add: verifyJWT_state)
qed

lemma getShopifyJWKS_Inr_iff:
  "fst (getShopifyJWKS E st shp) = Inr (Some ks) \<longleftrightarrow>
     (if isValidCache E st (''shopify_'' @ shp) then jwksCache st (''shopify_'' @ shp) = Some ks
      else (\<exists>status. fetchJwks E (''https://'' @ shp @ ''/.well-known/jwks.json'')
                        = JwksResponse status (Keys ks) \<and> responseOk status))"
proof (cases "isValidCache E st (''shopify_'' @ shp)")
  case True
  then show ?thesis by (simp add: getShopifyJWKS_def Let_def)
next
  case False
  show ?thesis
  proof (cases "fetchJwks E (''https://'' @ shp @ ''/.well-known/jwks.json'')")
    case (JwksNetworkFailure msg)
    with False show ?thesis by (simp add: getShopifyJWKS_def Let_def)
  next
    case (JwksResponse status body)
    with False show ?thesis
      by (cases body) (simp_all add: getShopifyJWKS_def Let_def)
  qed
qed

lemma getShopifyJWKS_cached:
  "isValidCache E st (''shopify_'' @ shp) \<Longrightarrow>
   getShopifyJWKS E st shp = (Inr (jwksCache st (''shopify_'' @ shp)), st)"
  by (simp add: getShopifyJWKS_def Let_def)







lemma payload_audience:
  assumes "truthy (iss p)" and "truthy (dest p)" and "truthy (sub p)"
    and "aud p = Some a" and "a \<noteq> []" and "a \<noteq> clientId"
  shows "validateTokenPayload E p clientId = Inl (InvalidAudience clientId (Some a))"
proof -
  have "truthy (aud p)" using assms(4,5) by (simp add: truthy_def)
  with assms show ?thesis by (simp add: validateTokenPayload_def Let_def)
qed












lemma jwks_state:
  assumes "decodeToken E tok = Claims p0" and "iss p0 = Some i" and "i \<noteq> []"
    and "urlHostname E i = Some shp"
  shows "snd (jwks_validateSessionToken E st tok) = snd (getShopifyJWKS E st shp)"
proof -
  have "jwks_validateSessionToken E st tok = verifyJWT E st tok shp"
    using assms by (simp add: jwks_validateSessionToken_def joseDecodeJwt_def lib_def)
  then show ?thesis by (simp add: verifyJWT_state)
qed

section \<open>Properties of the specification\<close>

subsection \<open>Claim C10: in production every sanitized shop is a \<open>myshopify.com\<close> domain\<close>

text \<open>
  Claim C10.  With \<open>NODE_ENV = production\<close>, whenever \<open>sanitizeShop\<close> succeeds its result
  is \<open>name.myshopify.com\<close>, where \<open>name\<close> is the leading run of \<open>[a-z0-9-]\<close> characters
  of the input after \<open>trim\<close>, \<open>toLowerCase\<close> and the removal of the protocol; so
  \<open>evil-shop.attacker.com\<close> becomes \<open>evil-shop.myshopify.com\<close>.  The shop that
  \<open>extractShopFromPayload\<close> hands to the token exchange ends with \<open>.myshopify.com\<close>, and
  the exchange reads the network only at URLs \<open>https://<shop>/admin/oauth/access_token\<close>
  with such a shop: changing the answers at all other URLs changes nothing.
\<close>

theorem sanitizeShop_production_myshopify:
  "(sanitizeShop True s = Inr r \<longrightarrow>
      takeWhile isShopNameChar (removeProtocol (toLowerCase (trim s))) \<noteq> [] \<and>
      r = takeWhile isShopNameChar (removeProtocol (toLowerCase (trim s))) @ ''.myshopify.com'')
   \<and> sanitizeShop True ''evil-shop.attacker.com'' = Inr ''evil-shop.myshopify.com''
   \<and> (production E \<and> extractShopFromPayload E p = Inr shp \<longrightarrow> endsWith shp ''.myshopify.com'')
   \<and> (production E \<and>
        (\<forall>shp body. endsWith shp ''.myshopify.com'' \<longrightarrow>
           f (tokenExchangeUrl shp) body = fetchToken E (tokenExchangeUrl shp) body) \<longrightarrow>
        exchangeSessionToken (E\<lparr>fetchToken := f\<rparr>) tok tt rows = exchangeSessionToken E tok tt rows)"
proof -
  have evil: "sanitizeShop True ''evil-shop.attacker.com'' = Inr ''evil-shop.myshopify.com''"
    by code_simp
  show ?thesis
    using sanitizeShop_production[of s r] evil extractShop_production[of E p shp]
      exchange_only_myshopify[of E f tok tt rows]
    by blast
qed

theorem sanitizeShop_production_myshopify_witness:
  "sanitizeShop True ''  HTTPS://Evil-Shop.Attacker.com/admin'' = Inr ''evil-shop.myshopify.com''
   \<and> takeWhile isShopNameChar (removeProtocol (toLowerCase (trim ''  HTTPS://Evil-Shop.Attacker.com/admin'')))
       = ''evil-shop''
   \<and> production demoEnv
   \<and> extractShopFromPayload demoEnv demoPayload = Inr ''demo-shop.myshopify.com''
   \<and> endsWith ''demo-shop.myshopify.com'' ''.myshopify.com''
   \<and> exchangeSessionToken (demoEnv\<lparr>fetchToken := (\<lambda>url body.
          if url = ''https://evil-shop.attacker.com/admin/oauth/access_token''
          then HttpResponse 200 [] (Some (demoResponse\<lparr>access_token := ''stolen''\<rparr>))
          else demoFetchToken url body)\<rparr>) ''good.jwt'' offline demoRows
       = exchangeSessionToken demoEnv ''good.jwt'' offline demoRows"
proof -
  let ?f = "\<lambda>url body.
          if url = ''https://evil-shop.attacker.com/admin/oauth/access_token''
          then HttpResponse 200 [] (Some (demoResponse\<lparr>access_token := ''stolen''\<rparr>))
          else demoFetchToken url body"
  have a: "sanitizeShop True ''  HTTPS://Evil-Shop.Attacker.com/admin'' = Inr ''evil-shop.myshopify.com''"
    by code_simp
  have b: "production demoEnv" by (simp add: demoEnv_def)
  have c: "extractShopFromPayload demoEnv demoPayload = Inr ''demo-shop.myshopify.com''"
    by code_simp
  have d: "\<forall>shp body. endsWith shp ''.myshopify.com'' \<longrightarrow>
           ?f (tokenExchangeUrl shp) body = fetchToken demoEnv (tokenExchangeUrl shp) body"
    by (auto simp: demoEnv_def tokenExchangeUrl_def endsWith_def suffix_def)
  have e: "takeWhile isShopNameChar (removeProtocol (toLowerCase (trim ''  HTTPS://Evil-Shop.Attacker.com/admin'')))
       = ''evil-shop''" by code_simp
  from sanitizeShop_production_myshopify[of "''  HTTPS://Evil-Shop.Attacker.com/admin''" "''evil-shop.myshopify.com''"
            demoEnv demoPayload "''demo-shop.myshopify.com''" ?f "''good.jwt''" offline demoRows]
    a b c d e
  show ?thesis by blast
qed

subsection \<open>Claim C9: a token without \<open>exp\<close> is accepted\<close>

text \<open>
  Claim C9.  \<open>ShopifyAuthService.validateSessionToken\<close> accepts a token that carries no
  \<open>exp\<close> claim: when the signature verifies with the client secret, \<open>iss\<close>, \<open>dest\<close>,
  \<open>aud\<close> and \<open>sub\<close> are present and valid, and \<open>nbf\<close> and \<open>iat\<close> are valid or absent,
  the result is the payload.  The expiry check applies only to a present claim.
\<close>

theorem validateSessionToken_without_exp:
  assumes "apiSecret E = Some clientSecret" and "clientSecret \<noteq> []"
    and "apiKey E = Some clientId" and "clientId \<noteq> []"
    and "jwtVerify E tok clientSecret = Inr (Some p)"
    and "exp p = None"
    and "truthy (iss p)" and "truthy (dest p)" and "truthy (sub p)"
    and "aud p = Some clientId"
    and "\<forall>x. nbf p = Some x \<longrightarrow> x \<le> nowSec E"
    and "\<forall>x. iat p = Some x \<longrightarrow> nowSec E - x \<le> SESSION_TOKEN_LIFETIME + 30"
    and "extractShopFromPayload E p = Inr shp"
    and "isValidShopDomain (production E) shp"
    and "includesStr (the (iss p)) ''.myshopify.com''"
  shows "validateSessionToken E tok = Inr p"
proof -
  have "truthy (aud p)" using assms(4,10) by (simp add: truthy_def)
  then have "validateTokenPayload E p clientId = Inr ()"
    using assms(6-15)
    by (auto simp: validateTokenPayload_def Let_def bindE_simps split: option.splits)
  then show ?thesis
    using assms(1-5,13)
    by (simp add: validateSessionToken_def getRequiredConfig_Some bindE_simps lib_def)
qed


theorem validateSessionToken_without_exp_witness:
  "exp (demoPayload\<lparr>exp := None\<rparr>) = None
   \<and> jwtVerify demoEnv ''noexp.jwt'' ''shh'' = Inr (Some (demoPayload\<lparr>exp := None\<rparr>))
   \<and> validateSessionToken demoEnv ''noexp.jwt'' = Inr (demoPayload\<lparr>exp := None\<rparr>)"
proof -
  let ?p = "demoPayload\<lparr>exp := None\<rparr>"
  have v: "jwtVerify demoEnv ''noexp.jwt'' ''shh'' = Inr (Some ?p)"
    by code_simp
  have s: "extractShopFromPayload demoEnv ?p = Inr ''demo-shop.myshopify.com''"
    by code_simp
  have d: "isValidShopDomain (production demoEnv) ''demo-shop.myshopify.com''"
    by code_simp
  have i: "includesStr (the (iss ?p)) ''.myshopify.com''"
    by code_simp
  have "validateSessionToken demoEnv ''noexp.jwt'' = Inr ?p"
    by (rule validateSessionToken_without_exp[where clientSecret = "''shh''" and clientId = "''abc''"
                  and shp = "''demo-shop.myshopify.com''", OF _ _ _ _ v _ _ _ _ _ _ _ s d i])
       (simp_all add: demoEnv_def demoPayload_def truthy_def nowSec_def SESSION_TOKEN_LIFETIME_def)
  with v show ?thesis by simp
qed

subsection \<open>Claim C5: a rejected exchange leaves the table alone\<close>

text \<open>
  Claim C5.  When the session token validates and the token endpoint answers with a
  status outside 200..299, \<open>exchangeSessionToken\<close> fails with the error that carries the
  upstream status and body, and the session table is the one before the call: no row
  is written and none is deactivated.
\<close>

theorem exchange_rejected_keeps_table:
  assumes "validateSessionToken E tok = Inr p"
    and "extractShopFromPayload E p = Inr shp"
    and "apiKey E = Some clientId" and "apiSecret E = Some clientSecret"
    and "fetchToken E (tokenExchangeUrl shp) (requestBody clientId clientSecret tok tt)
           = HttpResponse status errorText json"
    and "\<not> responseOk status"
  shows "exchangeSessionToken E tok tt rows
           = (Inl (TokenExchangeFailed (TokenExchangeHttpFailed status errorText)), rows)"
proof -
  have cfg: "getRequiredConfig ''SHOPIFY_API_SECRET'' (apiSecret E) = Inr clientSecret"
            "getRequiredConfig ''SHOPIFY_API_KEY'' (apiKey E) = Inr clientId"
    using assms(1,3,4)
    by (auto simp: validateSessionToken_def getRequiredConfig_def bindE_simps
             split: sum.splits if_splits)
  have "performTokenExchange E shp tok tt = Inl (TokenExchangeHttpFailed status errorText)"
    using cfg assms(5,6) by (simp add: performTokenExchange_def bindE_simps)
  then show ?thesis
    using assms(1,2) by (simp add: exchangeSessionToken_def bindE_simps)
qed

theorem exchange_rejected_keeps_table_witness:
  "validateSessionToken demoRejectEnv ''good.jwt'' = Inr demoPayload
   \<and> \<not> responseOk 401
   \<and> exchangeSessionToken demoRejectEnv ''good.jwt'' offline demoRows
       = (Inl (TokenExchangeFailed (TokenExchangeHttpFailed 401 ''Unauthorized'')), demoRows)"
proof -
  have v: "validateSessionToken demoRejectEnv ''good.jwt'' = Inr demoPayload" by code_simp
  have s: "extractShopFromPayload demoRejectEnv demoPayload = Inr ''demo-shop.myshopify.com''"
    by code_simp
  have r: "\<not> responseOk 401" by (simp add: responseOk_def)
  have "exchangeSessionToken demoRejectEnv ''good.jwt'' offline demoRows
       = (Inl (TokenExchangeFailed (TokenExchangeHttpFailed 401 ''Unauthorized'')), demoRows)"
    by (rule exchange_rejected_keeps_table[OF v s _ _ _ r, where clientId = "''abc''" and clientSecret = "''shh''" and json = None])
       (simp_all add: demoRejectEnv_def demoEnv_def)
  with v r show ?thesis by simp
qed

subsection \<open>Claim C1: one active session per shop after an exchange\<close>

text \<open>
  Claim C1.  \<open>exchangeSessionToken\<close> changes the session table only through the one
  transaction of \<open>storeSession\<close>: a failed call leaves the table as it was, and a
  successful call leaves exactly the table that results from deactivating the active rows
  of the derived shop and then saving the new session.  In a table whose primary keys
  are distinct, exactly one row of that shop is active afterwards.
\<close>

theorem exchange_single_active_session:
  "(exchangeSessionToken E tok tt rows = (Inl err, rows') \<longrightarrow> rows' = rows)
   \<and> (exchangeSessionToken E tok tt rows = (Inr resp, rows') \<and> distinct (map id_col rows) \<longrightarrow>
        (\<exists>p shp i. validateSessionToken E tok = Inr p \<and> extractShopFromPayload E p = Inr shp
           \<and> sidOrJti p = Some i
           \<and> rows' = save i (createSession E shp p resp tt) (deactivate shp (nowMs E) rows)
           \<and> length (activeSessions shp rows') = 1 \<and> distinct (map id_col rows')))"
proof (intro conjI impI)
  assume "exchangeSessionToken E tok tt rows = (Inl err, rows')"
  then show "rows' = rows" by (rule exchange_Inl)
next
  assume a: "exchangeSessionToken E tok tt rows = (Inr resp, rows') \<and> distinct (map id_col rows)"
  then obtain p shp i where x: "validateSessionToken E tok = Inr p" "extractShopFromPayload E p = Inr shp"
      "sidOrJti p = Some i"
      "rows' = save i (createSession E shp p resp tt) (deactivate shp (nowMs E) rows)"
    using exchange_Inr by blast
  have "affected shp rows' = 1"
    unfolding x(4) using a by (intro affected_save) (auto dest: deactivate_none_active)
  then have "length (activeSessions shp rows') = 1" by (simp only: affected_def)
  moreover have "distinct (map id_col rows')"
    unfolding x(4) using a by (intro save_distinct) simp
  ultimately show "\<exists>p shp i. validateSessionToken E tok = Inr p \<and> extractShopFromPayload E p = Inr shp
           \<and> sidOrJti p = Some i
           \<and> rows' = save i (createSession E shp p resp tt) (deactivate shp (nowMs E) rows)
           \<and> length (activeSessions shp rows') = 1 \<and> distinct (map id_col rows')"
    using x by blast
qed

theorem exchange_single_active_session_witness:
  "exchangeSessionToken demoEnv ''good.jwt'' offline demoRows
     = (Inr demoResponse,
        save ''sid-1'' (createSession demoEnv ''demo-shop.myshopify.com'' demoPayload demoResponse offline)
          (deactivate ''demo-shop.myshopify.com'' (nowMs demoEnv) demoRows))
   \<and> distinct (map id_col demoRows)
   \<and> length (activeSessions ''demo-shop.myshopify.com'' demoRows) = 1
   \<and> length (activeSessions ''demo-shop.myshopify.com''
        (snd (exchangeSessionToken demoEnv ''good.jwt'' offline demoRows))) = 1"
proof -
  let ?rows' = "save ''sid-1'' (createSession demoEnv ''demo-shop.myshopify.com'' demoPayload demoResponse offline)
          (deactivate ''demo-shop.myshopify.com'' (nowMs demoEnv) demoRows)"
  have x: "exchangeSessionToken demoEnv ''good.jwt'' offline demoRows = (Inr demoResponse, ?rows')"
    by code_simp
  have d: "distinct (map id_col demoRows)" by code_simp
  have a: "length (activeSessions ''demo-shop.myshopify.com'' demoRows) = 1" by code_simp
  have v: "validateSessionToken demoEnv ''good.jwt'' = Inr demoPayload" by code_simp
  have s: "extractShopFromPayload demoEnv demoPayload = Inr ''demo-shop.myshopify.com''" by code_simp
  from exchange_single_active_session[of demoEnv "''good.jwt''" offline demoRows _ ?rows' demoResponse] x d v s
  have "length (activeSessions ''demo-shop.myshopify.com'' ?rows') = 1" by auto
  with x d a show ?thesis by simp
qed

subsection \<open>Claim C6: the row persisted by an offline exchange\<close>

text \<open>
  Claim C6, as stated, fails when the table already holds a row with the session id of
  the token (a second exchange in the same session): \<open>save\<close> then updates that row in
  place, so the row that was active before is active again, and an \<open>expiresAt\<close> left
  by an online exchange stays, because the object gives \<open>undefined\<close> for it.  The table
  of the example is the one that an offline and then an online exchange of the same
  session produce from the empty table.
\<close>

theorem offline_exchange_same_session_counterexample:
  "snd (exchangeSessionToken demoEnv ''good.jwt'' online
          (snd (exchangeSessionToken demoEnv ''good.jwt'' offline []))) = demoRowsSameId
   \<and> fst (exchangeSessionToken demoEnv ''good.jwt'' offline demoRowsSameId) = Inr demoResponse
   \<and> access_token demoResponse = ''tok1'' \<and> scope demoResponse = ''read_products''
   \<and> map_option shop (findById ''sid-1'' demoRowsSameId) = Some ''demo-shop.myshopify.com''
   \<and> map_option isActive (findById ''sid-1'' demoRowsSameId) = Some True
   \<and> map_option isActive
         (findById ''sid-1'' (snd (exchangeSessionToken demoEnv ''good.jwt'' offline demoRowsSameId)))
       = Some True
   \<and> map_option accessToken
         (findById ''sid-1'' (snd (exchangeSessionToken demoEnv ''good.jwt'' offline demoRowsSameId)))
       = Some (Some ''tok1'')
   \<and> map_option expiresAt
         (findById ''sid-1'' (snd (exchangeSessionToken demoEnv ''good.jwt'' offline demoRowsSameId)))
       = Some (Some 87400500)"
  by code_simp

text \<open>
  Claim C6, amended.  After a successful offline exchange whose response has
  \<open>access_token = tok1\<close> and \<open>scope = read_products\<close>, the row stored under the token's
  session id belongs to the derived shop, has \<open>accessToken = tok1\<close>,
  \<open>scopes = [read_products]\<close> and \<open>isActive = true\<close>, and every other row of that shop is
  inactive; when no row with that session id existed before, its \<open>expiresAt\<close> is null.
\<close>

theorem offline_exchange_persisted_row:
  assumes "exchangeSessionToken E tok offline rows = (Inr resp, rows')"
    and "access_token resp = ''tok1''" and "scope resp = ''read_products''"
  shows "\<exists>p shp i row.
           validateSessionToken E tok = Inr p \<and> extractShopFromPayload E p = Inr shp
           \<and> sidOrJti p = Some i \<and> findById i rows' = Some row
           \<and> shop row = shp \<and> accessToken row = Some ''tok1''
           \<and> scopes row = [''read_products''] \<and> isActive row
           \<and> (findById i rows = None \<longrightarrow> expiresAt row = None)
           \<and> (\<forall>r\<in>set rows'. shop r = shp \<and> id_col r \<noteq> i \<longrightarrow> \<not> isActive r)"
proof -
  from exchange_Inr[OF assms(1)] obtain p shp i where
    x: "validateSessionToken E tok = Inr p" "extractShopFromPayload E p = Inr shp"
       "sidOrJti p = Some i"
       "rows' = save i (createSession E shp p resp offline) (deactivate shp (nowMs E) rows)"
    by blast
  let ?s = "createSession E shp p resp offline"
  let ?rows1 = "deactivate shp (nowMs E) rows"
  let ?row = "case findById i ?rows1 of None \<Rightarrow> insertedRow i ?s | Some r \<Rightarrow> updatedRow r ?s"
  have f: "findById i rows' = Some ?row" unfolding x(4) by (rule findById_save)
  have sc: "e_scope ?s = [''read_products'']"
    by (simp add: createSession_offline(3) assms(3) split_read_products)
  have at: "e_accessToken ?s = Some ''tok1''"
    by (simp add: createSession_offline(1) assms(2))
  have r1: "shop ?row = shp" by (simp add: savedRow_fields(1))
  have r2: "accessToken ?row = Some ''tok1''" using at by (rule savedRow_accessToken)
  have r3: "scopes ?row = [''read_products'']" by (simp add: savedRow_fields(2) sc)
  have r4: "isActive ?row" by (simp add: savedRow_fields(3))
  have r5: "findById i rows = None \<longrightarrow> expiresAt ?row = None"
  proof
    assume "findById i rows = None"
    then have "findById i ?rows1 = None" by (simp add: findById_None_iff)
    then show "expiresAt ?row = None"
      by (simp add: insertedRow_expiresAt createSession_offline(2))
  qed
  have r6: "\<forall>r\<in>set rows'. shop r = shp \<and> id_col r \<noteq> i \<longrightarrow> \<not> isActive r"
  proof (intro ballI impI)
    fix r assume m: "r \<in> set rows'" and a: "shop r = shp \<and> id_col r \<noteq> i"
    from m have "r \<in> set (save i ?s ?rows1)" by (simp only: x(4))
    moreover from a have "id_col r \<noteq> i" ..
    ultimately have "r \<in> set ?rows1" by (rule save_others)
    then have "\<not> (shop r = shp \<and> isActive r)" by (rule deactivate_none_active)
    with a show "\<not> isActive r" by blast
  qed
  show ?thesis
    by (intro exI conjI) (rule x(1) x(2) x(3) f r1 r2 r3 r4 r5 r6)+
qed

theorem offline_exchange_persisted_row_witness:
  "exchangeSessionToken demoEnv ''good.jwt'' offline demoRows
     = (Inr demoResponse, snd (exchangeSessionToken demoEnv ''good.jwt'' offline demoRows))
   \<and> access_token demoResponse = ''tok1'' \<and> scope demoResponse = ''read_products''
   \<and> findById ''sid-1'' demoRows = None
   \<and> (\<exists>row. findById ''sid-1'' (snd (exchangeSessionToken demoEnv ''good.jwt'' offline demoRows)) = Some row
         \<and> shop row = ''demo-shop.myshopify.com'' \<and> accessToken row = Some ''tok1''
         \<and> scopes row = [''read_products''] \<and> isActive row \<and> expiresAt row = None)"
proof -
  let ?rows' = "snd (exchangeSessionToken demoEnv ''good.jwt'' offline demoRows)"
  have x: "exchangeSessionToken demoEnv ''good.jwt'' offline demoRows = (Inr demoResponse, ?rows')"
    by code_simp
  have a: "access_token demoResponse = ''tok1''" and b: "scope demoResponse = ''read_products''"
    by (simp_all add: demoResponse_def)
  have v: "validateSessionToken demoEnv ''good.jwt'' = Inr demoPayload" by code_simp
  have s: "extractShopFromPayload demoEnv demoPayload = Inr ''demo-shop.myshopify.com''" by code_simp
  have i: "sidOrJti demoPayload = Some ''sid-1''" by code_simp
  have n: "findById ''sid-1'' demoRows = None" by code_simp
  from offline_exchange_persisted_row[OF x a b] obtain p shp j row where
    r: "validateSessionToken demoEnv ''good.jwt'' = Inr p" "extractShopFromPayload demoEnv p = Inr shp"
       "sidOrJti p = Some j" "findById j ?rows' = Some row"
       "shop row = shp" "accessToken row = Some ''tok1''" "scopes row = [''read_products'']" "isActive row"
       "findById j demoRows = None \<longrightarrow> expiresAt row = None"
    by (elim exE conjE) (rule that; assumption)
  from r(1) v have "p = demoPayload" by simp
  with r(2) s have "shp = ''demo-shop.myshopify.com''" by simp
  from \<open>p = demoPayload\<close> r(3) i have "j = ''sid-1''" by simp
  with r n \<open>shp = ''demo-shop.myshopify.com''\<close>
  have "findById ''sid-1'' ?rows' = Some row \<and> shop row = ''demo-shop.myshopify.com''
        \<and> accessToken row = Some ''tok1'' \<and> scopes row = [''read_products''] \<and> isActive row
        \<and> expiresAt row = None"
    by simp
  then have "\<exists>row. findById ''sid-1'' ?rows' = Some row \<and> shop row = ''demo-shop.myshopify.com''
        \<and> accessToken row = Some ''tok1'' \<and> scopes row = [''read_products''] \<and> isActive row
        \<and> expiresAt row = None" ..
  with x a b n show ?thesis by (intro conjI)
qed

subsection \<open>Claim C8: \<open>invalidateSession\<close>\<close>

text \<open>
  Claim C8, as stated, fails in its last part: \<open>invalidateSession\<close> returns nothing.  A
  call that deactivates one row and a call that deactivates none return the same value;
  the count goes to the log only.
\<close>

theorem invalidateSession_returns_nothing_counterexample:
  "sanitizeShop (production demoEnv) ''demo-shop'' = Inr ''demo-shop.myshopify.com''
   \<and> affected ''demo-shop.myshopify.com'' demoRows = 1
   \<and> affected ''demo-shop.myshopify.com'' [] = 0
   \<and> fst (invalidateSession demoEnv ''demo-shop'' demoRows) = Inr ()
   \<and> fst (invalidateSession demoEnv ''demo-shop'' []) = Inr ()"
  by code_simp

text \<open>
  Claim C8, amended.  When the shop sanitizes and the datastore carries out the update,
  \<open>invalidateSession\<close> deactivates every active row of the sanitized shop and leaves the
  rows of other shops alone; it returns nothing and logs the number of rows affected.
  A second call (at any later time) succeeds too, changes nothing and logs zero.
\<close>

theorem invalidateSession_deactivates_idempotent:
  assumes "sanitizeShop (production E) s = Inr shp"
    and "dbAccepts E (deactivate shp (nowMs E) rows)"
    and "production E' = production E"
    and "dbAccepts E' (deactivate shp (nowMs E) rows)"
  shows "invalidateSession E s rows
           = (Inr (), deactivate shp (nowMs E) rows, Some (affected shp rows))
       \<and> (\<forall>r\<in>set (deactivate shp (nowMs E) rows). shop r = shp \<longrightarrow> \<not> isActive r)
       \<and> (\<forall>r\<in>set rows. shop r \<noteq> shp \<longrightarrow> r \<in> set (deactivate shp (nowMs E) rows))
       \<and> invalidateSession E' s (deactivate shp (nowMs E) rows)
           = (Inr (), deactivate shp (nowMs E) rows, Some 0)"
proof (intro conjI ballI impI)
  show "invalidateSession E s rows = (Inr (), deactivate shp (nowMs E) rows, Some (affected shp rows))"
    using assms(1,2) by (simp add: invalidateSession_def Let_def)
  show "invalidateSession E' s (deactivate shp (nowMs E) rows)
           = (Inr (), deactivate shp (nowMs E) rows, Some 0)"
    using assms(1,3,4) by (simp add: invalidateSession_def Let_def)
next
  fix r assume "r \<in> set (deactivate shp (nowMs E) rows)" and "shop r = shp"
  then show "\<not> isActive r" using deactivate_none_active by blast
next
  fix r assume "r \<in> set rows" and "shop r \<noteq> shp"
  then show "r \<in> set (deactivate shp (nowMs E) rows)" by (rule deactivate_other_shop)
qed

theorem invalidateSession_deactivates_idempotent_witness:
  "sanitizeShop (production demoEnv) ''demo-shop'' = Inr ''demo-shop.myshopify.com''
   \<and> invalidateSession demoEnv ''demo-shop'' demoRows
       = (Inr (), deactivate ''demo-shop.myshopify.com'' (nowMs demoEnv) demoRows, Some 1)
   \<and> invalidateSession (demoEnv\<lparr>nowMs := 2000000\<rparr>) ''demo-shop''
         (deactivate ''demo-shop.myshopify.com'' (nowMs demoEnv) demoRows)
       = (Inr (), deactivate ''demo-shop.myshopify.com'' (nowMs demoEnv) demoRows, Some 0)"
proof -
  have s: "sanitizeShop (production demoEnv) ''demo-shop'' = Inr ''demo-shop.myshopify.com''"
    by code_simp
  have a: "affected ''demo-shop.myshopify.com'' demoRows = 1" by code_simp
  have d: "dbAccepts demoEnv (deactivate ''demo-shop.myshopify.com'' (nowMs demoEnv) demoRows)"
    by code_simp
  have p: "production (demoEnv\<lparr>nowMs := 2000000\<rparr>) = production demoEnv" by simp
  have d': "dbAccepts (demoEnv\<lparr>nowMs := 2000000\<rparr>)
              (deactivate ''demo-shop.myshopify.com'' (nowMs demoEnv) demoRows)"
    by code_simp
  from invalidateSession_deactivates_idempotent[OF s d p d'] s a show ?thesis by simp
qed

subsection \<open>Claim C7: a wrong audience\<close>




subsection \<open>Claim C3: an expired token\<close>




subsection \<open>Claim C2: issuer and destination of different shops\<close>

text \<open>
  Claim C2 says that a token whose signature verifies and whose issuer and destination
  have different hostnames is rejected with the mismatch error.
  \<open>ShopifySessionGuard.validateTokenClaims\<close> compares the two hostnames;
  \<open>ShopifyAuthService.validateTokenPayload\<close> has no such comparison.  The token
  \<open>mismatch.jwt\<close> is signed with the secret, is neither expired nor early, has the right
  audience, the issuer \<open>https://demo-shop.myshopify.com/admin\<close> and the destination
  \<open>https://other-shop.myshopify.com\<close>: the guard rejects it with the mismatch error, the
  service accepts it and returns its claims.  For \<open>keyset-mismatch.jwt\<close>, which the key
  of the shop verifies, \<open>validateTokenClaims\<close> raises the mismatch error as well, but the
  guard catches it and answers with the error of the shared-secret strategy.
\<close>

theorem issuer_destination_mismatch_accepted:
  "jwtVerify demoEnv ''mismatch.jwt'' ''shh''
     = Inr (Some (demoPayload\<lparr>dest := Some ''https://other-shop.myshopify.com''\<rparr>))
   \<and> iss demoPayload = Some ''https://demo-shop.myshopify.com/admin''
   \<and> urlHostname demoEnv ''https://demo-shop.myshopify.com/admin'' = Some ''demo-shop.myshopify.com''
   \<and> urlHostname demoEnv ''https://other-shop.myshopify.com'' = Some ''other-shop.myshopify.com''
   \<and> validateSessionToken demoEnv ''mismatch.jwt''
       = Inr (demoPayload\<lparr>dest := Some ''https://other-shop.myshopify.com''\<rparr>)
   \<and> validateTokenClaims demoEnv (demoPayload\<lparr>dest := Some ''https://other-shop.myshopify.com''\<rparr>)
       = Inl DomainsDoNotMatch
   \<and> fst (guard_validateSessionToken demoEnv demoCache ''mismatch.jwt'')
       = Inl (JwtValidationFailed DomainsDoNotMatch)
   \<and> fst (jwks_validateSessionToken demoJwksEnv demoCache ''keyset-mismatch.jwt'')
       = Inr (demoPayload\<lparr>iss := Some ''https://demo-shop.myshopify.com'',
                          dest := Some ''https://other-shop.myshopify.com''\<rparr>)
   \<and> validateTokenClaims demoJwksEnv
         (demoPayload\<lparr>iss := Some ''https://demo-shop.myshopify.com'',
                      dest := Some ''https://other-shop.myshopify.com''\<rparr>)
       = Inl DomainsDoNotMatch
   \<and> fst (guard_validateSessionToken demoJwksEnv demoCache ''keyset-mismatch.jwt'')
       = Inl (JwtValidationFailed (LibraryError ''invalid algorithm''))"
  by code_simp

subsection \<open>Claim C4: the key set first, then the shared secret\<close>

text \<open>
  Claim C4: \<open>ShopifySessionGuard.validateSessionToken\<close> runs the key-set strategy
  first.  With \<open>J\<close> the outcome of \<open>JWKSService.validateSessionToken\<close> from the cache
  state \<open>st\<close>:
  \<^item> when \<open>J\<close> gives claims that pass \<open>validateTokenClaims\<close>, these claims are the result,
    whatever the shared secret would say;
  \<^item> when \<open>J\<close> is any error, or its claims fail \<open>validateTokenClaims\<close>, the result is that
    of \<open>validateWithSecret\<close>;
  \<^item> in every case the cache is left as the key-set strategy leaves it: untouched when
    the cached keys are still valid, holding the fetched keys for an hour after a
    successful fetch, also when the token is then accepted through the shared secret;
  \<^item> a failed fetch of the key set is such an error, and leaves the cache alone;
  \<^item> the key-set strategy succeeds exactly when the token decodes to the claims, their
    issuer parses to a hostname, the key set of that hostname has the key named by the
    header's \<open>kid\<close>, the key imports and \<open>jose.jwtVerify\<close> accepts the token under it
    for the issuer \<open>https://hostname\<close> and the audience \<open>SHOPIFY_API_KEY\<close>; the key set
    is the cached one while the cache entry is valid, and otherwise the one that an
    \<open>ok\<close> response of \<open>https://hostname/.well-known/jwks.json\<close> carries;
  \<^item> the shared-secret strategy succeeds exactly when the secret is configured,
    \<open>jwtService.verify\<close> accepts the token under it and the claims pass
    \<open>validateTokenClaims\<close>;
  \<^item> the token is accepted if and only if one of the two strategies succeeds together
    with the claim validation.
\<close>

theorem guard_jwks_then_secret:
  "(fst (jwks_validateSessionToken E st tok) = Inr d \<and> validateTokenClaims E d = Inr ()
     \<longrightarrow> guard_validateSessionToken E st tok
          = (Inr d, snd (jwks_validateSessionToken E st tok)))
   \<and> (fst (jwks_validateSessionToken E st tok) = Inl err
     \<longrightarrow> guard_validateSessionToken E st tok
          = (validateWithSecret E tok, snd (jwks_validateSessionToken E st tok)))
   \<and> (fst (jwks_validateSessionToken E st tok) = Inr d \<and> validateTokenClaims E d = Inl c
     \<longrightarrow> guard_validateSessionToken E st tok
          = (validateWithSecret E tok, snd (jwks_validateSessionToken E st tok)))
   \<and> (decodeToken E tok = Claims p0 \<and> iss p0 = Some i \<and> i \<noteq> [] \<and> urlHostname E i = Some shp
      \<and> isValidCache E st (''shopify_'' @ shp)
     \<longrightarrow> snd (guard_validateSessionToken E st tok) = st)
   \<and> (decodeToken E tok = Claims p0 \<and> iss p0 = Some i \<and> i \<noteq> [] \<and> urlHostname E i = Some shp
      \<and> \<not> isValidCache E st (''shopify_'' @ shp)
      \<and> fetchJwks E (''https://'' @ shp @ ''/.well-known/jwks.json'') = JwksResponse status (Keys ks)
      \<and> responseOk status
     \<longrightarrow> snd (guard_validateSessionToken E st tok)
          = st\<lparr> jwksCache := (jwksCache st)(''shopify_'' @ shp \<mapsto> ks),
                cacheExpiry := (cacheExpiry st)(''shopify_'' @ shp \<mapsto> nowMs E + CACHE_TTL) \<rparr>)
   \<and> (decodeToken E tok = Claims p0 \<and> iss p0 = Some i \<and> i \<noteq> [] \<and> urlHostname E i = Some shp
      \<and> \<not> isValidCache E st (''shopify_'' @ shp)
      \<and> fetchJwks E (''https://'' @ shp @ ''/.well-known/jwks.json'') = JwksNetworkFailure msg
     \<longrightarrow> jwks_validateSessionToken E st tok = (Inl (JwtVerificationFailed (LibraryError msg)), st)
         \<and> guard_validateSessionToken E st tok = (validateWithSecret E tok, st))
   \<and> (fst (jwks_validateSessionToken E st tok) = Inr d \<longleftrightarrow>
        (\<exists>i shp ks k key pk. decodeToken E tok = Claims d \<and> iss d = Some i \<and> i \<noteq> []
           \<and> urlHostname E i = Some shp
           \<and> fst (getShopifyJWKS E st shp) = Inr (Some ks)
           \<and> joseDecodeProtectedHeader E tok = Inr (Some k) \<and> k \<noteq> []
           \<and> find (\<lambda>key. kid key = k) ks = Some key
           \<and> joseImportJWK E key = Inr pk
           \<and> joseJwtVerify E tok pk (''https://'' @ shp) (apiKey E) = Inr d))
   \<and> (fst (getShopifyJWKS E st shp) = Inr (Some ks) \<longleftrightarrow>
        (if isValidCache E st (''shopify_'' @ shp)
         then jwksCache st (''shopify_'' @ shp) = Some ks
         else (\<exists>status. fetchJwks E (''https://'' @ shp @ ''/.well-known/jwks.json'')
                           = JwksResponse status (Keys ks) \<and> responseOk status)))
   \<and> (validateWithSecret E tok = Inr d \<longleftrightarrow>
        (\<exists>sec. apiSecret E = Some sec \<and> sec \<noteq> [] \<and> jwtVerify E tok sec = Inr (Some d)
               \<and> validateTokenClaims E d = Inr ()))
   \<and> ((\<exists>d. fst (guard_validateSessionToken E st tok) = Inr d) \<longleftrightarrow>
        (\<exists>d. fst (jwks_validateSessionToken E st tok) = Inr d \<and> validateTokenClaims E d = Inr ())
        \<or> (\<exists>d. validateWithSecret E tok = Inr d))"
proof (intro conjI impI)
  assume "fst (jwks_validateSessionToken E st tok) = Inr d \<and> validateTokenClaims E d = Inr ()"
  then show "guard_validateSessionToken E st tok
          = (Inr d, snd (jwks_validateSessionToken E st tok))"
    by (intro guard_accept) blast+
next
  assume "fst (jwks_validateSessionToken E st tok) = Inl err"
  then show "guard_validateSessionToken E st tok
          = (validateWithSecret E tok, snd (jwks_validateSessionToken E st tok))"
    by (rule guard_fallback_error)
next
  assume "fst (jwks_validateSessionToken E st tok) = Inr d \<and> validateTokenClaims E d = Inl c"
  then show "guard_validateSessionToken E st tok
          = (validateWithSecret E tok, snd (jwks_validateSessionToken E st tok))"
    by (intro guard_fallback_claims[where d = d and err = c]) blast+
next
  assume h: "decodeToken E tok = Claims p0 \<and> iss p0 = Some i \<and> i \<noteq> [] \<and> urlHostname E i = Some shp
      \<and> isValidCache E st (''shopify_'' @ shp)"
  then have "snd (jwks_validateSessionToken E st tok) = snd (getShopifyJWKS E st shp)"
    by (intro jwks_state[where ?p0.0 = p0 and i = i]) blast+
  moreover from h have "getShopifyJWKS E st shp = (Inr (jwksCache st (''shopify_'' @ shp)), st)"
    by (intro getShopifyJWKS_cached) blast
  ultimately show "snd (guard_validateSessionToken E st tok) = st"
    by (simp add: guard_state)
next
  assume h: "decodeToken E tok = Claims p0 \<and> iss p0 = Some i \<and> i \<noteq> [] \<and> urlHostname E i = Some shp
      \<and> \<not> isValidCache E st (''shopify_'' @ shp)
      \<and> fetchJwks E (''https://'' @ shp @ ''/.well-known/jwks.json'') = JwksResponse status (Keys ks)
      \<and> responseOk status"
  then have "snd (jwks_validateSessionToken E st tok)
           = st\<lparr> jwksCache := (jwksCache st)(''shopify_'' @ shp \<mapsto> ks),
                 cacheExpiry := (cacheExpiry st)(''shopify_'' @ shp \<mapsto> nowMs E + CACHE_TTL) \<rparr>"
    by (intro jwks_fetch_cached[where ?p0.0 = p0 and i = i and status = status]) blast+
  then show "snd (guard_validateSessionToken E st tok)
          = st\<lparr> jwksCache := (jwksCache st)(''shopify_'' @ shp \<mapsto> ks),
                cacheExpiry := (cacheExpiry st)(''shopify_'' @ shp \<mapsto> nowMs E + CACHE_TTL) \<rparr>"
    by (simp only: guard_state)
next
  assume h: "decodeToken E tok = Claims p0 \<and> iss p0 = Some i \<and> i \<noteq> [] \<and> urlHostname E i = Some shp
      \<and> \<not> isValidCache E st (''shopify_'' @ shp)
      \<and> fetchJwks E (''https://'' @ shp @ ''/.well-known/jwks.json'') = JwksNetworkFailure msg"
  then show j: "jwks_validateSessionToken E st tok
                  = (Inl (JwtVerificationFailed (LibraryError msg)), st)"
    by (intro jwks_network_failure[where ?p0.0 = p0 and i = i and shp = shp]) blast+
  then have "fst (jwks_validateSessionToken E st tok) = Inl (JwtVerificationFailed (LibraryError msg))"
    by simp
  then have "guard_validateSessionToken E st tok
          = (validateWithSecret E tok, snd (jwks_validateSessionToken E st tok))"
    by (rule guard_fallback_error)
  with j show "guard_validateSessionToken E st tok = (validateWithSecret E tok, st)"
    by simp
next
  show "fst (jwks_validateSessionToken E st tok) = Inr d \<longleftrightarrow>
        (\<exists>i shp ks k key pk. decodeToken E tok = Claims d \<and> iss d = Some i \<and> i \<noteq> []
           \<and> urlHostname E i = Some shp
           \<and> fst (getShopifyJWKS E st shp) = Inr (Some ks)
           \<and> joseDecodeProtectedHeader E tok = Inr (Some k) \<and> k \<noteq> []
           \<and> find (\<lambda>key. kid key = k) ks = Some key
           \<and> joseImportJWK E key = Inr pk
           \<and> joseJwtVerify E tok pk (''https://'' @ shp) (apiKey E) = Inr d)"
    by (rule jwks_Inr_iff)
next
  show "fst (getShopifyJWKS E st shp) = Inr (Some ks) \<longleftrightarrow>
        (if isValidCache E st (''shopify_'' @ shp)
         then jwksCache st (''shopify_'' @ shp) = Some ks
         else (\<exists>status. fetchJwks E (''https://'' @ shp @ ''/.well-known/jwks.json'')
                           = JwksResponse status (Keys ks) \<and> responseOk status))"
    by (rule getShopifyJWKS_Inr_iff)
next
  show "validateWithSecret E tok = Inr d \<longleftrightarrow>
        (\<exists>sec. apiSecret E = Some sec \<and> sec \<noteq> [] \<and> jwtVerify E tok sec = Inr (Some d)
               \<and> validateTokenClaims E d = Inr ())"
    by (rule validateWithSecret_Inr_iff)
next
  show "(\<exists>d. fst (guard_validateSessionToken E st tok) = Inr d) \<longleftrightarrow>
        (\<exists>d. fst (jwks_validateSessionToken E st tok) = Inr d \<and> validateTokenClaims E d = Inr ())
        \<or> (\<exists>d. validateWithSecret E tok = Inr d)"
    by (rule guard_Inr_iff)
qed

theorem guard_jwks_then_secret_witness:
  "fetchJwks demoEnv ''https://demo-shop.myshopify.com/.well-known/jwks.json''
     = JwksNetworkFailure ''ECONNREFUSED''
   \<and> fst (jwks_validateSessionToken demoEnv demoCache ''good.jwt'')
       = Inl (JwtVerificationFailed (LibraryError ''ECONNREFUSED''))
   \<and> fst (guard_validateSessionToken demoEnv demoCache ''good.jwt'') = Inr demoPayload
   \<and> cacheExpiry (snd (guard_validateSessionToken demoEnv demoCache ''good.jwt''))
        ''shopify_demo-shop.myshopify.com'' = None
   \<and> fst (jwks_validateSessionToken demoJwksEnv demoCache ''keyset.jwt'')
       = Inr (demoPayload\<lparr>iss := Some ''https://demo-shop.myshopify.com''\<rparr>)
   \<and> validateWithSecret demoJwksEnv ''keyset.jwt''
       = Inl (JwtValidationFailed (LibraryError ''invalid algorithm''))
   \<and> fst (guard_validateSessionToken demoJwksEnv demoCache ''keyset.jwt'')
       = Inr (demoPayload\<lparr>iss := Some ''https://demo-shop.myshopify.com''\<rparr>)
   \<and> fst (jwks_validateSessionToken demoJwksEnv demoCache ''good.jwt'')
       = Inl (JwtVerificationFailed MissingKid)
   \<and> fst (guard_validateSessionToken demoJwksEnv demoCache ''good.jwt'') = Inr demoPayload
   \<and> jwksCache (snd (guard_validateSessionToken demoJwksEnv demoCache ''good.jwt''))
        ''shopify_demo-shop.myshopify.com'' = Some [demoKey]
   \<and> cacheExpiry (snd (guard_validateSessionToken demoJwksEnv demoCache ''good.jwt''))
        ''shopify_demo-shop.myshopify.com'' = Some 4600500"
proof -
  let ?shp = "''demo-shop.myshopify.com''"
  let ?i = "''https://demo-shop.myshopify.com/admin''"
  let ?k = "demoPayload\<lparr>iss := Some ''https://demo-shop.myshopify.com''\<rparr>"
  have f: "fetchJwks demoEnv (''https://'' @ ?shp @ ''/.well-known/jwks.json'')
             = JwksNetworkFailure ''ECONNREFUSED''"
    by (simp add: demoEnv_def)
  have d: "decodeToken demoEnv ''good.jwt'' = Claims demoPayload" by code_simp
  have i: "iss demoPayload = Some ?i" "?i \<noteq> []" by (simp_all add: demoPayload_def)
  have h: "urlHostname demoEnv ?i = Some ?shp" by (simp add: demoEnv_def demoHostname_def)
  have c: "\<not> isValidCache demoEnv demoCache (''shopify_'' @ ?shp)"
    by (simp add: isValidCache_def demoCache_def)
  have s: "validateWithSecret demoEnv ''good.jwt'' = Inr demoPayload" by code_simp
  from guard_jwks_then_secret[where E = demoEnv and st = demoCache and tok = "''good.jwt''"
      and ?p0.0 = demoPayload and i = ?i and shp = ?shp and msg = "''ECONNREFUSED''"]
    f d i h c
  have a: "jwks_validateSessionToken demoEnv demoCache ''good.jwt''
             = (Inl (JwtVerificationFailed (LibraryError ''ECONNREFUSED'')), demoCache)"
          "guard_validateSessionToken demoEnv demoCache ''good.jwt''
             = (validateWithSecret demoEnv ''good.jwt'', demoCache)"
    by blast+
  have 1: "fst (jwks_validateSessionToken demoEnv demoCache ''good.jwt'')
       = Inl (JwtVerificationFailed (LibraryError ''ECONNREFUSED''))"
    using a(1) by simp
  have 2: "fst (guard_validateSessionToken demoEnv demoCache ''good.jwt'') = Inr demoPayload"
    using a(2) s by simp
  have 3: "cacheExpiry (snd (guard_validateSessionToken demoEnv demoCache ''good.jwt''))
        ''shopify_demo-shop.myshopify.com'' = None"
    using a(2) by (simp add: demoCache_def)
  have k: "fst (jwks_validateSessionToken demoJwksEnv demoCache ''keyset.jwt'') = Inr ?k"
    by code_simp
  have v: "validateTokenClaims demoJwksEnv ?k = Inr ()" by code_simp
  have w: "validateWithSecret demoJwksEnv ''keyset.jwt''
       = Inl (JwtValidationFailed (LibraryError ''invalid algorithm''))"
    by code_simp
  from guard_jwks_then_secret[where E = demoJwksEnv and st = demoCache and tok = "''keyset.jwt''"
      and d = ?k] k v
  have "guard_validateSessionToken demoJwksEnv demoCache ''keyset.jwt''
          = (Inr ?k, snd (jwks_validateSessionToken demoJwksEnv demoCache ''keyset.jwt''))"
    by blast
  then have 4: "fst (guard_validateSessionToken demoJwksEnv demoCache ''keyset.jwt'') = Inr ?k"
    by simp
  have f': "fetchJwks demoJwksEnv (''https://'' @ ?shp @ ''/.well-known/jwks.json'')
             = JwksResponse 200 (Keys [demoKey])"
    by (simp add: demoJwksEnv_def demoEnv_def)
  have d': "decodeToken demoJwksEnv ''good.jwt'' = Claims demoPayload" by code_simp
  have h': "urlHostname demoJwksEnv ?i = Some ?shp"
    by (simp add: demoJwksEnv_def demoEnv_def demoHostname_def)
  have c': "\<not> isValidCache demoJwksEnv demoCache (''shopify_'' @ ?shp)"
    by (simp add: isValidCache_def demoCache_def)
  have o: "responseOk 200" by (simp add: responseOk_def)
  have m: "fst (jwks_validateSessionToken demoJwksEnv demoCache ''good.jwt'')
       = Inl (JwtVerificationFailed MissingKid)"
    by code_simp
  have s': "validateWithSecret demoJwksEnv ''good.jwt'' = Inr demoPayload" by code_simp
  have n: "nowMs demoJwksEnv + CACHE_TTL = 4600500"
    by (simp add: demoJwksEnv_def demoEnv_def CACHE_TTL_def)
  from guard_jwks_then_secret[where E = demoJwksEnv and st = demoCache and tok = "''good.jwt''"
      and ?p0.0 = demoPayload and i = ?i and shp = ?shp and status = 200 and ks = "[demoKey]"
      and err = "JwtVerificationFailed MissingKid"]
    f' d' i h' c' o m
  have b: "snd (guard_validateSessionToken demoJwksEnv demoCache ''good.jwt'')
          = demoCache\<lparr> jwksCache := (jwksCache demoCache)(''shopify_'' @ ?shp \<mapsto> [demoKey]),
                cacheExpiry := (cacheExpiry demoCache)
                   (''shopify_'' @ ?shp \<mapsto> nowMs demoJwksEnv + CACHE_TTL) \<rparr>"
    and g: "guard_validateSessionToken demoJwksEnv demoCache ''good.jwt''
          = (validateWithSecret demoJwksEnv ''good.jwt'',
             snd (jwks_validateSessionToken demoJwksEnv demoCache ''good.jwt''))"
    by blast+
  have 5: "fst (guard_validateSessionToken demoJwksEnv demoCache ''good.jwt'') = Inr demoPayload"
    using g s' by simp
  have 6: "jwksCache (snd (guard_validateSessionToken demoJwksEnv demoCache ''good.jwt''))
        ''shopify_demo-shop.myshopify.com'' = Some [demoKey]"
    unfolding b by simp
  have 7: "cacheExpiry (snd (guard_validateSessionToken demoJwksEnv demoCache ''good.jwt''))
        ''shopify_demo-shop.myshopify.com'' = Some 4600500"
    unfolding b n by simp
  have f0: "fetchJwks demoEnv ''https://demo-shop.myshopify.com/.well-known/jwks.json''
     = JwksNetworkFailure ''ECONNREFUSED''"
    by (simp add: demoEnv_def)
  from f0 1 2 3 k w 4 m 5 6 7 show ?thesis by blast
qed

end
